theory Spec2Isabelle
  imports Complex_Main "HOL-Library.Sublist" "HOL-Library.List_Lexorder" "HOL-Library.Char_ord"
    "HOL-Library.Log_Nat"
begin

section \<open>JavaScript numbers\<close>

text \<open>
  The TypeScript type \<open>number\<close> is an IEEE-754 double.  A finite double is represented by
  the real number it denotes, next to \<open>NaN\<close> and the two infinities; the sign of zero is
  not modelled.  A product or a sum of two finite doubles is the exact result rounded to
  the nearest double, ties to the even significand (\<open>fl\<close>), and a decimal literal of the
  source denotes the double nearest to it.
\<close>

datatype number = NaN | NegInf | PosInf | Num real

text \<open>Rounding to the nearest integer, a tie going to the even one.\<close>

definition rne :: "real \<Rightarrow> int" where
  "rne q =
     (let f = \<lfloor>q\<rfloor>; d = q - of_int f
      in if d < 1 / 2 then f else if 1 / 2 < d then f + 1 else if even f then f else f + 1)"

text \<open>
  The binary exponent of a positive real: the \<open>e\<close> with \<open>2 powi e \<le> x < 2 powi (e + 1)\<close>,
  read off the number of binary digits of the integer part of \<open>x\<close> (of \<open>1 / x\<close> below 1).
\<close>

definition expo :: "real \<Rightarrow> int" where
  "expo x =
     (if 1 \<le> x then int (floorlog 2 (nat \<lfloor>x\<rfloor>)) - 1
      else - int (floorlog 2 (nat (\<lceil>1 / x\<rceil> - 1))))"

text \<open>
  The distance between neighbouring doubles around \<open>x\<close>: 52 binary digits below the
  exponent of \<open>x\<close>, and below the smallest normal exponent \<open>-1022\<close> for the subnormal
  numbers.
\<close>

definition ulp :: "real \<Rightarrow> real" where
  "ulp x = 2 powi (max (expo \<bar>x\<bar>) (- 1022) - 52)"

definition rnd :: "real \<Rightarrow> real" where
  "rnd x = (if x = 0 then 0 else of_int (rne (x / ulp x)) * ulp x)"

text \<open>The double that a real rounds to; a result of \<open>2 ^ 1024\<close> or more overflows.\<close>

definition fl :: "real \<Rightarrow> number" where
  "fl x =
     (let r = rnd x
      in if 2 ^ 1024 \<le> r then PosInf else if r \<le> - (2 ^ 1024) then NegInf else Num r)"

text \<open>
  The abstract relational comparison of ECMAScript (\<open>IsLessThan\<close>): \<open>None\<close> is the result
  \<open>undefined\<close> that a comparison with \<open>NaN\<close> produces.
\<close>

fun IsLessThan :: "number \<Rightarrow> number \<Rightarrow> bool option" where
  "IsLessThan NaN y = None"
| "IsLessThan x NaN = None"
| "IsLessThan (Num a) (Num b) = Some (a < b)"
| "IsLessThan PosInf y = Some False"
| "IsLessThan x PosInf = Some True"
| "IsLessThan x NegInf = Some False"
| "IsLessThan NegInf y = Some True"

definition js_lt :: "number \<Rightarrow> number \<Rightarrow> bool" where
  \<comment> \<open>\<open>x < y\<close>\<close>
  "js_lt x y = (IsLessThan x y = Some True)"

definition js_gt :: "number \<Rightarrow> number \<Rightarrow> bool" where
  \<comment> \<open>\<open>x > y\<close>\<close>
  "js_gt x y = (IsLessThan y x = Some True)"

definition js_ge :: "number \<Rightarrow> number \<Rightarrow> bool" where
  \<comment> \<open>\<open>x >= y\<close>: true when \<open>x < y\<close> is false, false when it is true or undefined\<close>
  "js_ge x y = (IsLessThan x y = Some False)"

definition isNaN :: "number \<Rightarrow> bool" where
  "isNaN x = (x = NaN)"

fun js_mul :: "number \<Rightarrow> number \<Rightarrow> number" where
  "js_mul NaN y = NaN"
| "js_mul x NaN = NaN"
| "js_mul (Num a) (Num b) = fl (a * b)"
| "js_mul x y =
     (if x = Num 0 \<or> y = Num 0 then NaN
      else if js_lt x (Num 0) = js_lt y (Num 0) then PosInf else NegInf)"

fun js_add :: "number \<Rightarrow> number \<Rightarrow> number" where
  "js_add NaN y = NaN"
| "js_add x NaN = NaN"
| "js_add (Num a) (Num b) = fl (a + b)"
| "js_add PosInf NegInf = NaN"
| "js_add NegInf PosInf = NaN"
| "js_add (Num a) y = y"
| "js_add x y = x"

text \<open>
  The quotient of two finite numbers is left unrounded.  The one division of the source, in
  \<open>totalPages\<close>, divides the length of an array (an integer below \<open>2 ^ 32\<close>) by the page
  size (a positive integer) and takes the ceiling; the rounded quotient of two such
  integers has the ceiling of the exact one.
\<close>

fun js_div :: "number \<Rightarrow> number \<Rightarrow> number" where
  "js_div NaN y = NaN"
| "js_div x NaN = NaN"
| "js_div (Num a) (Num b) =
     (if b = 0 then (if a = 0 then NaN else if 0 < a then PosInf else NegInf)
      else Num (a / b))"
| "js_div (Num a) y = Num 0"
| "js_div x (Num b) = (if js_lt x (Num 0) = (b < 0) then PosInf else NegInf)"
| "js_div x y = NaN"

fun Math_ceil :: "number \<Rightarrow> number" where
  "Math_ceil (Num a) = Num (of_int \<lceil>a\<rceil>)"
| "Math_ceil x = x"

definition Math_max :: "number \<Rightarrow> number \<Rightarrow> number" where
  "Math_max x y = (if isNaN x \<or> isNaN y then NaN else if js_lt x y then y else x)"

section \<open>Grading helpers\<close>

text \<open>
  \<^verbatim>\<open>function calculateFinalScore(tb1, tb2, uas) { return tb1 * 0.3 + tb2 * 0.3 + uas * 0.4; }\<close>
\<close>

definition calculateFinalScore :: "number \<Rightarrow> number \<Rightarrow> number \<Rightarrow> number" where
  "calculateFinalScore tb1 tb2 uas =
     js_add (js_add (js_mul tb1 (fl 0.3)) (js_mul tb2 (fl 0.3))) (js_mul uas (fl 0.4))"

text \<open>
  \<^verbatim>\<open>function scoreToGrade(score) {
    if (score >= 80) return 'A';
    if (score >= 75) return 'B+';
    if (score >= 69) return 'B';
    if (score >= 65) return 'C+';
    if (score >= 56) return 'C';
    return 'D'; }\<close>
\<close>

definition scoreToGrade :: "number \<Rightarrow> string" where
  "scoreToGrade score =
     (if js_ge score (Num 80) then ''A''
      else if js_ge score (Num 75) then ''B+''
      else if js_ge score (Num 69) then ''B''
      else if js_ge score (Num 65) then ''C+''
      else if js_ge score (Num 56) then ''C''
      else ''D'')"

text \<open>
  \<open>gradeColours\<close>: the object that maps a grade to its (background, foreground) pair; the
  key \<open>default\<close> is the entry that \<open>gradeColours[grade] ?? gradeColours.default\<close> falls
  back to.
\<close>

definition gradeColours :: "string \<Rightarrow> (string \<times> string) option" where
  "gradeColours = map_of
     [(''A'', (''#34A853'', ''#FFFFFF'')),
      (''B+'', (''#3F6CD8'', ''#FFFFFF'')),
      (''B'', (''#F6C026'', ''#000000'')),
      (''C+'', (''#D97706'', ''#FFFFFF'')),
      (''C'', (''#E69B02'', ''#FFFFFF'')),
      (''D'', (''#D82C20'', ''#FFFFFF'')),
      (''default'', (''#666666'', ''#FFFFFF''))]"

section \<open>Strings\<close>

text \<open>
  A JavaScript string is modelled by the bytes of its UTF-8 encoding, as a list of
  characters.  The strings of the application are well-formed text (no lone surrogate), so
  two strings are equal exactly when their encodings are, a string is empty exactly when
  its encoding is, and one string occurs inside another exactly when its encoding occurs
  inside the encoding of the other.
\<close>

text \<open>
  The white space that \<open>trim\<close> and \<open>parseFloat\<close> strip, each character as the bytes of its
  encoding: the code points \<open>WhiteSpace\<close> and \<open>LineTerminator\<close> of ECMAScript, which are
  U+0009 to U+000D, U+0020, U+00A0, U+1680, U+2000 to U+200A, U+2028, U+2029, U+202F,
  U+205F, U+3000 and U+FEFF.
\<close>

definition whiteSpace :: "string list" where
  "whiteSpace =
     [[CHR 0x09], [CHR 0x0A], [CHR 0x0B], [CHR 0x0C], [CHR 0x0D], [CHR 0x20],
      [CHR 0xC2, CHR 0xA0],
      [CHR 0xE1, CHR 0x9A, CHR 0x80],
      [CHR 0xE2, CHR 0x80, CHR 0x80], [CHR 0xE2, CHR 0x80, CHR 0x81],
      [CHR 0xE2, CHR 0x80, CHR 0x82], [CHR 0xE2, CHR 0x80, CHR 0x83],
      [CHR 0xE2, CHR 0x80, CHR 0x84], [CHR 0xE2, CHR 0x80, CHR 0x85],
      [CHR 0xE2, CHR 0x80, CHR 0x86], [CHR 0xE2, CHR 0x80, CHR 0x87],
      [CHR 0xE2, CHR 0x80, CHR 0x88], [CHR 0xE2, CHR 0x80, CHR 0x89],
      [CHR 0xE2, CHR 0x80, CHR 0x8A],
      [CHR 0xE2, CHR 0x80, CHR 0xA8], [CHR 0xE2, CHR 0x80, CHR 0xA9],
      [CHR 0xE2, CHR 0x80, CHR 0xAF],
      [CHR 0xE2, CHR 0x81, CHR 0x9F],
      [CHR 0xE3, CHR 0x80, CHR 0x80],
      [CHR 0xEF, CHR 0xBB, CHR 0xBF]]"

text \<open>
  \<open>strip ws s\<close> takes from the front of \<open>s\<close> every leading occurrence of one of the
  (non-empty) byte sequences \<open>ws\<close>.  \<open>trim\<close> strips the white space from the front and,
  on the reversed string, from the end.
\<close>

fun strip :: "string list \<Rightarrow> string \<Rightarrow> string" where
  "strip ws [] = []"
| "strip ws (c # cs) =
     (case find (\<lambda>w. w \<noteq> [] \<and> prefix w (c # cs)) ws of
        None \<Rightarrow> c # cs
      | Some w \<Rightarrow> strip ws (drop (length w - 1) cs))"

definition trim :: "string \<Rightarrow> string" where
  "trim s = rev (strip (map rev whiteSpace) (rev (strip whiteSpace s)))"

text \<open>
  \<open>String.prototype.toLowerCase\<close> follows the case mapping of Unicode, whose tables are no
  part of the source: the functions of the source that call it take it as their parameter
  \<open>toLowerCase\<close>.  On ASCII text it is \<open>asciiLowerCase\<close>, which maps \<open>A\<close>..\<open>Z\<close> to
  \<open>a\<close>..\<open>z\<close> and keeps every other character.
\<close>

definition toLowerChar :: "char \<Rightarrow> char" where
  "toLowerChar c =
     (case map_of (zip ''ABCDEFGHIJKLMNOPQRSTUVWXYZ'' ''abcdefghijklmnopqrstuvwxyz'') c of
        Some l \<Rightarrow> l
      | None \<Rightarrow> c)"

definition asciiLowerCase :: "string \<Rightarrow> string" where
  "asciiLowerCase s = map toLowerChar s"

text \<open>\<open>s.includes(q)\<close>: \<open>q\<close> occurs in \<open>s\<close> as a contiguous run starting at some position.\<close>

fun includes_str :: "string \<Rightarrow> string \<Rightarrow> bool" where
  "includes_str [] q = (q = [])"
| "includes_str (c # cs) q = (prefix q (c # cs) \<or> includes_str cs q)"

text \<open>
  \<open>parseFloat\<close>: skip leading white space, then read the longest prefix that is a
  \<open>StrDecimalLiteral\<close> (an optional sign, then \<open>Infinity\<close> or digits with an optional
  fraction and an optional exponent); \<open>NaN\<close> when there is no such prefix.  Whatever
  follows the literal is ignored.  The result is the double nearest to the decimal value.
\<close>

definition isDigit :: "char \<Rightarrow> bool" where
  "isDigit c = (48 \<le> (of_char c :: nat) \<and> (of_char c :: nat) \<le> 57)"

definition digitValue :: "char \<Rightarrow> nat" where
  "digitValue c = of_char c - 48"

definition decimalValue :: "string \<Rightarrow> nat" where
  "decimalValue ds = foldl (\<lambda>n c. 10 * n + digitValue c) 0 ds"

definition parseExponent :: "string \<Rightarrow> int" where
  "parseExponent r =
     (case r of
        [] \<Rightarrow> 0
      | c # r1 \<Rightarrow>
          if c = CHR ''e'' \<or> c = CHR ''E'' then
            (case r1 of
               [] \<Rightarrow> 0
             | sg # r2 \<Rightarrow>
                 if sg = CHR ''-'' then - int (decimalValue (takeWhile isDigit r2))
                 else if sg = CHR ''+'' then int (decimalValue (takeWhile isDigit r2))
                 else int (decimalValue (takeWhile isDigit r1)))
          else 0)"

definition scale10 :: "real \<Rightarrow> int \<Rightarrow> real" where
  "scale10 x e = (if 0 \<le> e then x * 10 ^ nat e else x / 10 ^ nat (- e))"

definition parseUnsigned :: "string \<Rightarrow> number" where
  "parseUnsigned u =
     (if prefix ''Infinity'' u then PosInf
      else
        let ip = takeWhile isDigit u;
            r1 = dropWhile isDigit u;
            dot = (case r1 of [] \<Rightarrow> False | c # r \<Rightarrow> c = CHR ''.'');
            fp = (if dot then takeWhile isDigit (tl r1) else []);
            r2 = (if dot then dropWhile isDigit (tl r1) else r1)
        in if ip = [] \<and> fp = [] then NaN
           else fl (scale10 (real (decimalValue ip) + real (decimalValue fp) / 10 ^ length fp)
                            (parseExponent r2)))"

fun js_negate :: "number \<Rightarrow> number" where
  "js_negate NaN = NaN"
| "js_negate PosInf = NegInf"
| "js_negate NegInf = PosInf"
| "js_negate (Num a) = Num (- a)"

definition parseFloat :: "string \<Rightarrow> number" where
  "parseFloat s =
     (case strip whiteSpace s of
        [] \<Rightarrow> NaN
      | c # r \<Rightarrow>
          if c = CHR ''-'' then js_negate (parseUnsigned r)
          else if c = CHR ''+'' then parseUnsigned r
          else parseUnsigned (c # r))"

section \<open>The database\<close>

text \<open>
  A row of the table \<open>mahasiswa\<close> (the interface \<open>Student\<close>).  The column \<open>id\<close> is written
  \<open>id_col\<close>.
\<close>

record Student =
  id_col :: int
  nama :: string
  nim :: string
  matkul :: string
  tb1 :: number
  tb2 :: number
  uas :: number

text \<open>
  The database file: the rows of \<open>mahasiswa\<close>, the counter that \<open>AUTOINCREMENT\<close> keeps
  (the largest row id the table has ever held), and the single row of \<open>settings\<close>.
  A statement either fails with a constraint violation or yields the new database; failures
  of the storage itself are not modelled.  Statements are run one at a time: an asynchronous
  handler is modelled as running from its first statement to its last without another
  handler in between.
\<close>

record database =
  mahasiswa :: "Student list"
  sqlite_sequence :: int
  settings :: "string option"

datatype sql_error = SQLITE_CONSTRAINT_UNIQUE

text \<open>\<^verbatim>\<open>SELECT ... FROM mahasiswa WHERE nim = ?\<close>\<close>

definition select_by_nim :: "database \<Rightarrow> string \<Rightarrow> Student list" where
  "select_by_nim db n = filter (\<lambda>r. nim r = n) (mahasiswa db)"

definition next_rowid :: "database \<Rightarrow> int" where
  "next_rowid db = fold max (map id_col (mahasiswa db)) (sqlite_sequence db) + 1"

text \<open>
  \<^verbatim>\<open>INSERT INTO mahasiswa (nama, nim, matkul, tb1, tb2, uas) VALUES (?, ?, ?, ?, ?, ?)\<close>
  under the unique index \<open>idx_mahasiswa_nim\<close>.
\<close>

definition insert_mahasiswa ::
  "database \<Rightarrow> string \<Rightarrow> string \<Rightarrow> string \<Rightarrow> number \<Rightarrow> number \<Rightarrow> number \<Rightarrow> sql_error + database" where
  "insert_mahasiswa db na ni ma t1 t2 u =
     (if ni \<in> set (map nim (mahasiswa db)) then Inl SQLITE_CONSTRAINT_UNIQUE
      else Inr (db\<lparr>mahasiswa := mahasiswa db @
                    [\<lparr>id_col = next_rowid db, nama = na, nim = ni, matkul = ma,
                      tb1 = t1, tb2 = t2, uas = u\<rparr>],
                  sqlite_sequence := next_rowid db\<rparr>))"

text \<open>\<^verbatim>\<open>DELETE FROM mahasiswa WHERE id = ?\<close>: no constraint can fail.\<close>

definition delete_mahasiswa :: "database \<Rightarrow> int \<Rightarrow> sql_error + database" where
  "delete_mahasiswa db k = Inr (db\<lparr>mahasiswa := filter (\<lambda>r. id_col r \<noteq> k) (mahasiswa db)\<rparr>)"

text \<open>
  \<^verbatim>\<open>UPDATE mahasiswa SET nama = ?, nim = ?, matkul = ?, tb1 = ?, tb2 = ?, uas = ? WHERE id = ?\<close>
  with the values and the id of \<open>s\<close>.  The unique index is checked for a row that is
  written: the statement fails when a row has this id and another row holds the new \<open>nim\<close>.
\<close>

definition update_mahasiswa :: "database \<Rightarrow> Student \<Rightarrow> sql_error + database" where
  "update_mahasiswa db s =
     (if id_col s \<in> set (map id_col (mahasiswa db))
         \<and> nim s \<in> set (map nim (filter (\<lambda>r. id_col r \<noteq> id_col s) (mahasiswa db)))
      then Inl SQLITE_CONSTRAINT_UNIQUE
      else Inr (db\<lparr>mahasiswa := map (\<lambda>r. if id_col r = id_col s then s else r) (mahasiswa db)\<rparr>))"

section \<open>The handlers\<close>

text \<open>
  What a handler lets the user observe: an alert with its title and message, the inline
  error under the NIM field, a warning on the console, the list reloaded from the database
  (\<open>loadStudents\<close>), or nothing because the confirmation dialog was cancelled.  A handler
  returns the one effect that tells its outcomes apart, together with the database it
  leaves; what it does to the inputs of its own form besides (clearing the inline error
  before a write, emptying the form or closing the modal after a success) is not part of
  the result.
\<close>

datatype effect =
    Alert string string
  | SetNimError string
  | ConsoleWarn string
  | Reloaded
  | Cancelled

text \<open>
  \<open>AddStudentScreen.handleSaveStudent\<close>.  The state variables that hold the text of the six
  inputs are written with the suffix \<open>_txt\<close>.  The checks run in the order of the source:
  presence of all fields, the three scores, the NIM as it stands in the input, and then the
  insertion of the trimmed values, which the unique index can still reject.
\<close>

definition handleSaveStudent ::
  "string \<Rightarrow> string \<Rightarrow> string \<Rightarrow> string \<Rightarrow> string \<Rightarrow> string \<Rightarrow> database \<Rightarrow> effect \<times> database" where
  "handleSaveStudent nama_txt nim_txt matkul_txt tb1_txt tb2_txt uas_txt db =
     (if nama_txt = [] \<or> nim_txt = [] \<or> matkul_txt = []
         \<or> tb1_txt = [] \<or> tb2_txt = [] \<or> uas_txt = []
      then (Alert ''Peringatan'' ''Semua field harus diisi'', db)
      else
        let t1 = parseFloat tb1_txt; t2 = parseFloat tb2_txt; u = parseFloat uas_txt in
        if isNaN t1 \<or> isNaN t2 \<or> isNaN u
           \<or> js_lt t1 (Num 0) \<or> js_gt t1 (Num 100)
           \<or> js_lt t2 (Num 0) \<or> js_gt t2 (Num 100)
           \<or> js_lt u (Num 0) \<or> js_gt u (Num 100)
        then (Alert ''Peringatan'' ''Nilai harus angka antara 0 dan 100'', db)
        else if length (select_by_nim db nim_txt) > 0
        then (SetNimError ''NIM sudah terdaftar'', db)
        else
          (case insert_mahasiswa db (trim nama_txt) (trim nim_txt) (trim matkul_txt) t1 t2 u of
             Inl err \<Rightarrow> (Alert ''Error'' ''Terjadi kesalahan saat menyimpan data'', db)
           | Inr db' \<Rightarrow> (Alert ''Berhasil'' ''Data mahasiswa berhasil disimpan'', db')))"

text \<open>\<open>StudentsScreen.handleSaveEditedStudent\<close>, the \<open>onSave\<close> callback of the edit modal.\<close>

definition handleSaveEditedStudent :: "Student \<Rightarrow> database \<Rightarrow> effect \<times> database" where
  "handleSaveEditedStudent student db =
     (case update_mahasiswa db student of
        Inl err \<Rightarrow> (ConsoleWarn ''Failed to update student'', db)
      | Inr db' \<Rightarrow> (Reloaded, db'))"

text \<open>
  \<open>EditStudentModal.handleSave\<close>: \<open>student\<close> is the record the modal was opened with, the six
  \<open>_txt\<close> arguments are the texts of its inputs.
\<close>

definition handleSave ::
  "Student \<Rightarrow> string \<Rightarrow> string \<Rightarrow> string \<Rightarrow> string \<Rightarrow> string \<Rightarrow> string \<Rightarrow> database
     \<Rightarrow> effect \<times> database" where
  "handleSave student name_txt nim_txt course_txt tb1_txt tb2_txt uas_txt db =
     (if name_txt = [] \<or> nim_txt = [] \<or> course_txt = []
         \<or> tb1_txt = [] \<or> tb2_txt = [] \<or> uas_txt = []
      then (Alert ''Peringatan'' ''Semua field harus diisi'', db)
      else
        let t1 = parseFloat tb1_txt; t2 = parseFloat tb2_txt; u = parseFloat uas_txt in
        if isNaN t1 \<or> isNaN t2 \<or> isNaN u
           \<or> js_lt t1 (Num 0) \<or> js_gt t1 (Num 100)
           \<or> js_lt t2 (Num 0) \<or> js_gt t2 (Num 100)
           \<or> js_lt u (Num 0) \<or> js_gt u (Num 100)
        then (Alert ''Peringatan'' ''Nilai harus angka antara 0 dan 100'', db)
        else if nim_txt \<noteq> nim student \<and> length (select_by_nim db nim_txt) > 0
        then (SetNimError ''NIM sudah terdaftar'', db)
        else handleSaveEditedStudent
               \<lparr>id_col = id_col student, nama = name_txt, nim = nim_txt, matkul = course_txt,
                tb1 = t1, tb2 = t2, uas = u\<rparr> db)"

text \<open>
  \<open>StudentsScreen.handleDeleteStudent\<close>: the confirmation dialog offers \<open>Batal\<close> and
  \<open>Hapus\<close>; only \<open>Hapus\<close> runs the statement.
\<close>

datatype button = Batal | Hapus

definition handleDeleteStudent :: "int \<Rightarrow> button \<Rightarrow> database \<Rightarrow> effect \<times> database" where
  "handleDeleteStudent studentId pressed db =
     (case pressed of
        Batal \<Rightarrow> (Cancelled, db)
      | Hapus \<Rightarrow>
          (case delete_mahasiswa db studentId of
             Inl err \<Rightarrow> (ConsoleWarn ''Failed to delete student'', db)
           | Inr db' \<Rightarrow> (Reloaded, db')))"

section \<open>The students screen\<close>

text \<open>
  \<open>Array.prototype.sort\<close> without a comparison function orders strings by their UTF-16 code
  units.  That is the order of the code points, except that the characters outside the
  Basic Multilingual Plane (whose encodings start with the bytes F0 to F4) come before the
  characters from U+E000 on (whose encodings start with EE or EF).  \<open>utf16_key\<close> moves these
  two lead bytes past the others, to the bytes FE and FF that no encoding uses, so that the
  order of the keys, byte by byte, is the order of the strings in the source.
\<close>

definition utf16_key :: "string \<Rightarrow> string" where
  "utf16_key s =
     map (\<lambda>c. if c = CHR 0xEE then CHR 0xFE else if c = CHR 0xEF then CHR 0xFF else c) s"

text \<open>
  \<open>loadStudents\<close>: the rows in descending order of \<open>id\<close>, and the distinct courses among
  them in the ascending order of \<open>Array.prototype.sort\<close>.
\<close>

definition loadStudents :: "database \<Rightarrow> Student list \<times> string list" where
  "loadStudents db =
     (let rows = rev (sort_key id_col (mahasiswa db));
          uniqueCourses = sort_key utf16_key (remdups (map matkul rows))
      in (rows, uniqueCourses))"

text \<open>
  The body of the \<open>useMemo\<close> behind \<open>filteredStudents\<close>.  The three local constants of the
  callback are functions of the student; \<open>query\<close> is the trimmed, lower-cased search text;
  \<open>toLowerCase\<close> is the built-in conversion.
\<close>

definition matchesSearch :: "(string \<Rightarrow> string) \<Rightarrow> string \<Rightarrow> Student \<Rightarrow> bool" where
  "matchesSearch toLowerCase query s =
     (length query = 0
      \<or> includes_str (toLowerCase (nama s)) query
      \<or> includes_str (toLowerCase (nim s)) query
      \<or> includes_str (toLowerCase (matkul s)) query)"

definition matchesGrade :: "string \<Rightarrow> Student \<Rightarrow> bool" where
  "matchesGrade gradeFilter s =
     (let score = calculateFinalScore (tb1 s) (tb2 s) (uas s);
          grade = scoreToGrade score
      in gradeFilter = ''Semua Grade'' \<or> gradeFilter = grade)"

definition matchesCourse :: "string \<Rightarrow> Student \<Rightarrow> bool" where
  "matchesCourse courseFilter s =
     (courseFilter = ''Semua Program Studi'' \<or> courseFilter = matkul s)"

definition filteredStudents ::
  "(string \<Rightarrow> string) \<Rightarrow> Student list \<Rightarrow> string \<Rightarrow> string \<Rightarrow> string \<Rightarrow> Student list" where
  "filteredStudents toLowerCase students searchQuery gradeFilter courseFilter =
     (let query = toLowerCase (trim searchQuery)
      in filter (\<lambda>s. matchesSearch toLowerCase query s \<and> matchesGrade gradeFilter s
                       \<and> matchesCourse courseFilter s) students)"

text \<open>
  \<open>Array.prototype.slice(start, end)\<close> on integer arguments (\<open>end\<close> is written \<open>end_ix\<close>): a negative index counts from
  the end, and both indices are clamped to the array.
\<close>

definition slice :: "'a list \<Rightarrow> int \<Rightarrow> int \<Rightarrow> 'a list" where
  "slice xs start end_ix =
     (let len = int (length xs);
          k = (if start < 0 then max (len + start) 0 else min start len);
          final = (if end_ix < 0 then max (len + end_ix) 0 else min end_ix len)
      in take (nat (final - k)) (drop (nat k) xs))"

text \<open>
  \<^verbatim>\<open>const totalPages = Math.max(1, Math.ceil(totalFiltered / itemsPerPage));\<close>
  \<^verbatim>\<open>const startIndex = (currentPage - 1) * itemsPerPage;\<close>
  \<^verbatim>\<open>return filteredStudents.slice(startIndex, startIndex + itemsPerPage);\<close>
  The page number and the page size are integers.
\<close>

definition totalPages :: "nat \<Rightarrow> int \<Rightarrow> number" where
  "totalPages totalFiltered itemsPerPage =
     Math_max (Num 1) (Math_ceil (js_div (Num (real totalFiltered)) (Num (of_int itemsPerPage))))"

definition paginatedStudents :: "'a list \<Rightarrow> int \<Rightarrow> int \<Rightarrow> 'a list" where
  "paginatedStudents filtered currentPage itemsPerPage =
     (let startIndex = (currentPage - 1) * itemsPerPage
      in slice filtered startIndex (startIndex + itemsPerPage))"

text \<open>
  The filter menus.  The state of the two filters and of the course options is a triple
  \<open>(gradeFilter, courseFilter, courseOptions)\<close>; an event is a press on the item at a
  position of one of the two menus, a press on \<open>Reset\<close>, or the completion of
  \<open>loadStudents\<close> against some database.  The \<open>Reset\<close> control exists only while its
  condition holds.
\<close>

definition gradeOptions :: "string list" where
  "gradeOptions = [''Semua Grade'', ''A'', ''B+'', ''B'', ''C+'', ''C'', ''D'']"

definition courseOptionsWithAll :: "string list \<Rightarrow> string list" where
  "courseOptionsWithAll courseOptions = ''Semua Program Studi'' # courseOptions"

definition clearFiltersVisible :: "string \<Rightarrow> string \<Rightarrow> bool" where
  "clearFiltersVisible gradeFilter courseFilter =
     (gradeFilter \<noteq> ''All Grades'' \<or> courseFilter \<noteq> ''All Courses'')"

type_synonym filter_state = "string \<times> string \<times> string list"

definition initial_filters :: filter_state where
  "initial_filters = (''Semua Grade'', ''Semua Program Studi'', [])"

datatype event = PressGrade nat | PressCourse nat | PressReset | StudentsLoaded database

fun step :: "filter_state \<Rightarrow> event \<Rightarrow> filter_state" where
  "step (gradeFilter, courseFilter, courseOptions) (PressGrade i) =
     (if i < length gradeOptions then (gradeOptions ! i, courseFilter, courseOptions)
      else (gradeFilter, courseFilter, courseOptions))"
| "step (gradeFilter, courseFilter, courseOptions) (PressCourse i) =
     (if i < length (courseOptionsWithAll courseOptions)
      then (gradeFilter, courseOptionsWithAll courseOptions ! i, courseOptions)
      else (gradeFilter, courseFilter, courseOptions))"
| "step (gradeFilter, courseFilter, courseOptions) PressReset =
     (if clearFiltersVisible gradeFilter courseFilter
      then (''Semua Grade'', ''Semua Program Studi'', courseOptions)
      else (gradeFilter, courseFilter, courseOptions))"
| "step (gradeFilter, courseFilter, courseOptions) (StudentsLoaded db) =
     (gradeFilter, courseFilter, snd (loadStudents db))"

definition run :: "event list \<Rightarrow> filter_state" where
  "run evs = foldl step initial_filters evs"

section \<open>Notions of the specification\<close>

text \<open>A score within \<open>[0, 100]\<close>: a finite number between the two bounds.\<close>

definition in_range :: "number \<Rightarrow> bool" where
  "in_range x = (case x of Num r \<Rightarrow> 0 \<le> r \<and> r \<le> 100 | _ \<Rightarrow> False)"

text \<open>
  \<open>q\<close> is a case-insensitive substring of \<open>field\<close>: once both are converted to lower case,
  \<open>q\<close> is a contiguous part of \<open>field\<close>.
\<close>

definition ci_substring :: "(string \<Rightarrow> string) \<Rightarrow> string \<Rightarrow> string \<Rightarrow> bool" where
  "ci_substring toLowerCase q field = sublist (toLowerCase q) (toLowerCase field)"

text \<open>A text that is white space only: not empty, and empty once trimmed.\<close>

definition blank :: "string \<Rightarrow> bool" where
  "blank t = (t \<noteq> [] \<and> trim t = [])"

text \<open>
  Six texts make a valid record: name, NIM and course are not empty, and each of the three
  score texts parses to a score within \<open>[0, 100]\<close>.  The edit modal stores its texts as
  they are entered; the add form stores name, NIM and course trimmed, and there the
  predicate is applied to the trimmed texts.
\<close>

definition form_valid :: "string \<Rightarrow> string \<Rightarrow> string \<Rightarrow> string \<Rightarrow> string \<Rightarrow> string \<Rightarrow> bool" where
  "form_valid name_txt nim_txt course_txt tb1_txt tb2_txt uas_txt =
     (name_txt \<noteq> [] \<and> nim_txt \<noteq> [] \<and> course_txt \<noteq> []
      \<and> tb1_txt \<noteq> [] \<and> tb2_txt \<noteq> [] \<and> uas_txt \<noteq> []
      \<and> in_range (parseFloat tb1_txt) \<and> in_range (parseFloat tb2_txt)
      \<and> in_range (parseFloat uas_txt))"

text \<open>
  How the outcomes of the specification show in the two forms: \<open>DuplicateKey\<close> is the inline
  error under the NIM field, a successful insertion is the alert \<open>Berhasil\<close>.  (A successful
  update or deletion is \<open>Reloaded\<close>.)
\<close>

definition DuplicateKey :: effect where
  "DuplicateKey = SetNimError ''NIM sudah terdaftar''"

definition Inserted :: effect where
  "Inserted = Alert ''Berhasil'' ''Data mahasiswa berhasil disimpan''"

text \<open>The record that the edit modal hands to \<open>onSave\<close>.\<close>

definition edited :: "Student \<Rightarrow> string \<Rightarrow> string \<Rightarrow> string \<Rightarrow> string \<Rightarrow> string \<Rightarrow> string \<Rightarrow> Student" where
  "edited student name_txt nim_txt course_txt tb1_txt tb2_txt uas_txt =
     \<lparr>id_col = id_col student, nama = name_txt, nim = nim_txt, matkul = course_txt,
      tb1 = parseFloat tb1_txt, tb2 = parseFloat tb2_txt, uas = parseFloat uas_txt\<rparr>"

section \<open>Properties of the rounding to doubles\<close>

lemma rne_bounds: "of_int (rne q) - 1 / 2 \<le> q \<and> q \<le> of_int (rne q) + 1 / 2"
proof -
  define f where "f = \<lfloor>q\<rfloor>"
  have fb: "of_int f \<le> q" "q < of_int f + 1" unfolding f_def by linarith+
  have f1: "(of_int (f + 1) :: real) = of_int f + 1" by simp
  consider "q - of_int f < 1 / 2" | "1 / 2 < q - of_int f" | "q - of_int f = 1 / 2"
    by linarith
  then show ?thesis
  proof cases
    case 1
    then have r: "rne q = f" by (simp add: rne_def Let_def f_def)
    have "of_int f - 1 / 2 \<le> q" "q \<le> of_int f + 1 / 2" using fb 1 by linarith+
    then show ?thesis unfolding r by blast
  next
    case 2
    then have r: "rne q = f + 1" by (simp add: rne_def Let_def f_def)
    have "of_int f + 1 - 1 / 2 \<le> q" "q \<le> of_int f + 1 + 1 / 2" using fb 2 by linarith+
    then show ?thesis unfolding r f1 by blast
  next
    case 3
    then have r: "rne q = f \<or> rne q = f + 1" by (simp add: rne_def Let_def f_def)
    have "of_int f - 1 / 2 \<le> q" "q \<le> of_int f + 1 / 2" using fb 3 by linarith+
    moreover have "of_int f + 1 - 1 / 2 \<le> q" "q \<le> of_int f + 1 + 1 / 2"
      using fb 3 by linarith+
    ultimately show ?thesis using r unfolding f1 [symmetric] by metis
  qed
qed

lemma rne_mono:
  assumes "q \<le> q'"
  shows "rne q \<le> rne q'"
proof (rule ccontr)
  assume "\<not> rne q \<le> rne q'"
  then have "rne q' + 1 \<le> rne q" by simp
  then have "(of_int (rne q') :: real) + 1 \<le> of_int (rne q)"
    by (metis of_int_1 of_int_add of_int_le_iff)
  with rne_bounds [of q] rne_bounds [of q'] assms have "q = q'" by linarith
  with \<open>\<not> rne q \<le> rne q'\<close> show False by simp
qed

lemma rne_of_int [simp]: "rne (of_int n) = n"
  by (simp add: rne_def)

lemma rne_nonneg: "0 \<le> q \<Longrightarrow> 0 \<le> rne q"
  using rne_mono [of 0 q] rne_of_int [of 0] by simp

lemma real_pow2_le: "2 ^ a \<le> (n::nat) \<Longrightarrow> (2::real) ^ a \<le> real n"
proof -
  assume "2 ^ a \<le> n"
  then have "real (2 ^ a) \<le> real n" by (rule of_nat_mono)
  then show ?thesis by simp
qed

lemma real_less_pow2: "(n::nat) < 2 ^ a \<Longrightarrow> real n + 1 \<le> 2 ^ a"
proof -
  assume "n < 2 ^ a"
  then have "n + 1 \<le> 2 ^ a" by simp
  then have "real (n + 1) \<le> real (2 ^ a)" by (rule of_nat_mono)
  then show ?thesis by simp
qed

lemma expo_bounds:
  assumes "0 < x"
  shows "2 powi (expo x) \<le> x \<and> x < 2 powi (expo x + 1)"
proof (cases "1 \<le> x")
  case True
  define n where "n = nat \<lfloor>x\<rfloor>"
  define k where "k = floorlog 2 n"
  have fx: "of_int \<lfloor>x\<rfloor> \<le> x" "x < of_int \<lfloor>x\<rfloor> + 1" "1 \<le> \<lfloor>x\<rfloor>"
    using True by linarith+
  have rn: "real n = of_int \<lfloor>x\<rfloor>" using fx(3) by (simp add: n_def)
  have n: "0 < n" using fx(3) by (simp add: n_def)
  have n2: "real n \<le> x" "x < real n + 1" using fx unfolding rn by linarith+
  have b: "2 ^ (k - 1) \<le> n" "n < 2 ^ k"
    using floorlog_bounds [of n 2] n by (auto simp: k_def)
  have k: "0 < k" using b(2) n by (cases k) auto
  have e: "expo x = int k - 1" using True by (simp add: expo_def n_def k_def)
  have p1: "(2::real) powi (int k - 1) = 2 ^ (k - 1)"
    using k by (simp add: power_int_def nat_diff_distrib)
  have p2: "(2::real) powi (int k - 1 + 1) = 2 ^ k" by simp
  have "(2::real) ^ (k - 1) \<le> x" using real_pow2_le [OF b(1)] n2(1) by linarith
  moreover have "x < 2 ^ k" using real_less_pow2 [OF b(2)] n2(2) by linarith
  ultimately show ?thesis unfolding e p1 p2 by blast
next
  case False
  define y where "y = 1 / x"
  define j where "j = nat (\<lceil>y\<rceil> - 1)"
  define k where "k = floorlog 2 j"
  have y: "1 < y" using False assms by (simp add: y_def)
  have cy: "of_int \<lceil>y\<rceil> - 1 < y" "y \<le> of_int \<lceil>y\<rceil>" "2 \<le> \<lceil>y\<rceil>"
    using y by linarith+
  have rj: "real j = of_int \<lceil>y\<rceil> - 1" using cy(3) by (simp add: j_def)
  have j: "0 < j" using cy(3) by (simp add: j_def)
  have j2: "real j < y" "y \<le> real j + 1" using cy unfolding rj by linarith+
  have b: "2 ^ (k - 1) \<le> j" "j < 2 ^ k"
    using floorlog_bounds [of j 2] j by (auto simp: k_def)
  have k: "0 < k" using b(2) j by (cases k) auto
  have e: "expo x = - int k" using False by (simp add: expo_def j_def k_def y_def)
  have x: "x = 1 / y" using assms by (simp add: y_def)
  have p1: "(2::real) powi (- int k) = 1 / 2 ^ k"
    by (simp add: power_int_def field_simps)
  have "- int k + 1 = - int (k - 1)" using k by simp
  then have "(2::real) powi (- int k + 1) = 2 powi (- int (k - 1))" by (rule arg_cong)
  also have "\<dots> = 1 / 2 ^ (k - 1)"
    by (simp add: power_int_def field_simps del: of_nat_diff)
  finally have p2: "(2::real) powi (- int k + 1) = 1 / 2 ^ (k - 1)" .
  have u: "y \<le> 2 ^ k" using real_less_pow2 [OF b(2)] j2(2) by linarith
  have l: "2 ^ (k - 1) < y" using real_pow2_le [OF b(1)] j2(1) by linarith
  have "1 / 2 ^ k \<le> 1 / y" using u y by (simp add: frac_le)
  moreover have "1 / y < 1 / 2 ^ (k - 1)" using l by (simp add: frac_less2)
  ultimately have "1 / 2 ^ k \<le> x" "x < 1 / 2 ^ (k - 1)" unfolding x by blast+
  then show ?thesis unfolding e p1 p2 by blast
qed

lemma expo_mono:
  assumes "0 < x" "x \<le> y"
  shows "expo x \<le> expo y"
proof (rule ccontr)
  assume "\<not> expo x \<le> expo y"
  then have "expo y + 1 \<le> expo x" by simp
  then have "(2::real) powi (expo y + 1) \<le> 2 powi (expo x)"
    by (intro power_int_increasing) auto
  with expo_bounds [of x] expo_bounds [of y] assms show False by linarith
qed

lemma ulp_pos: "0 < ulp x"
  by (simp add: ulp_def)

lemma rnd_nonneg: "0 \<le> x \<Longrightarrow> 0 \<le> rnd x"
  using ulp_pos [of x] by (simp add: rnd_def rne_nonneg)

lemma pow2_split: "(2::real) powi (e + 1) = 2 ^ 53 * 2 powi (e - 52)"
proof -
  have "e + 1 = 53 + (e - 52)" by simp
  then have "(2::real) powi (e + 1) = 2 powi (53 + (e - 52))" by (rule arg_cong)
  also have "\<dots> = 2 powi 53 * 2 powi (e - 52)" by (rule power_int_add) simp
  finally show ?thesis by simp
qed

lemma pow2_split': "(2::real) powi e = 2 ^ 52 * 2 powi (e - 52)"
proof -
  have "e = 52 + (e - 52)" by simp
  then have "(2::real) powi e = 2 powi (52 + (e - 52))" by (rule arg_cong)
  also have "\<dots> = 2 powi 52 * 2 powi (e - 52)" by (rule power_int_add) simp
  finally show ?thesis by simp
qed

lemma rnd_upper:
  assumes "0 < x"
  shows "rnd x \<le> 2 powi (max (expo x) (- 1022) + 1)"
proof -
  let ?e = "max (expo x) (- 1022)"
  let ?u = "2 powi (?e - 52) :: real"
  have u: "ulp x = ?u" using assms by (simp add: ulp_def)
  have up: "0 < ?u" by simp
  have "x < 2 powi (expo x + 1)" using expo_bounds [OF assms] by simp
  also have "\<dots> \<le> 2 powi (?e + 1)" by (intro power_int_increasing) auto
  also have "\<dots> = 2 ^ 53 * ?u" by (rule pow2_split)
  finally have "x / ?u \<le> 2 ^ 53" using up by (simp add: pos_divide_le_eq)
  then have "x / ?u \<le> of_int (2 ^ 53)" by simp
  then have "rne (x / ?u) \<le> rne (of_int (2 ^ 53))" by (rule rne_mono)
  then have "rne (x / ?u) \<le> 2 ^ 53" by (simp only: rne_of_int)
  then have "(of_int (rne (x / ?u)) :: real) \<le> of_int (2 ^ 53)" by (simp only: of_int_le_iff)
  then have "of_int (rne (x / ?u)) * ?u \<le> 2 ^ 53 * ?u"
    using up by (simp add: mult_right_mono)
  then show ?thesis using assms unfolding rnd_def u pow2_split by simp
qed

lemma rnd_lower:
  assumes "0 < x" "- 1022 \<le> expo x"
  shows "2 powi (expo x) \<le> rnd x"
proof -
  let ?u = "2 powi (expo x - 52) :: real"
  have u: "ulp x = ?u" using assms by (simp add: ulp_def max_def)
  have up: "0 < ?u" by simp
  have "2 ^ 52 * ?u = 2 powi (expo x)" by (rule pow2_split' [symmetric])
  also have "\<dots> \<le> x" using expo_bounds [OF assms(1)] by simp
  finally have "2 ^ 52 \<le> x / ?u" using up by (simp add: pos_le_divide_eq)
  then have "of_int (2 ^ 52) \<le> x / ?u" by simp
  then have "rne (of_int (2 ^ 52)) \<le> rne (x / ?u)" by (rule rne_mono)
  then have "2 ^ 52 \<le> rne (x / ?u)" by (simp only: rne_of_int)
  then have "(of_int (2 ^ 52) :: real) \<le> of_int (rne (x / ?u))" by (simp only: of_int_le_iff)
  then have "2 ^ 52 * ?u \<le> of_int (rne (x / ?u)) * ?u"
    using up by (simp add: mult_right_mono)
  then show ?thesis using assms unfolding rnd_def u pow2_split' [of "expo x"] by simp
qed

lemma rnd_mono_pos:
  assumes "0 < x" "x \<le> y"
  shows "rnd x \<le> rnd y"
proof -
  let ?ex = "max (expo x) (- 1022)"
  let ?ey = "max (expo y) (- 1022)"
  have y: "0 < y" using assms by linarith
  have le: "?ex \<le> ?ey" using expo_mono [OF assms] by simp
  show ?thesis
  proof (cases "?ex = ?ey")
    case True
    have ux: "ulp x = 2 powi (?ex - 52)" using assms by (simp add: ulp_def)
    have uy: "ulp y = 2 powi (?ex - 52)" using y True by (simp add: ulp_def)
    let ?u = "2 powi (?ex - 52) :: real"
    have up: "0 < ?u" by simp
    have "x / ?u \<le> y / ?u" using assms(2) up by (simp add: divide_right_mono)
    then have "rne (x / ?u) \<le> rne (y / ?u)" by (rule rne_mono)
    then have "(of_int (rne (x / ?u)) :: real) \<le> of_int (rne (y / ?u))" by simp
    then have "of_int (rne (x / ?u)) * ?u \<le> of_int (rne (y / ?u)) * ?u"
      using up by (simp add: mult_right_mono)
    then show ?thesis using assms y unfolding rnd_def ux uy by simp
  next
    case False
    with le have lt: "?ex + 1 \<le> ?ey" by simp
    then have ey: "?ey = expo y" "- 1022 \<le> expo y" by (auto simp: max_def split: if_splits)
    have "rnd x \<le> 2 powi (?ex + 1)" by (rule rnd_upper [OF assms(1)])
    also have "\<dots> \<le> 2 powi ?ey" using lt by (intro power_int_increasing) auto
    also have "\<dots> = 2 powi (expo y)" by (simp only: ey(1))
    also have "\<dots> \<le> rnd y" by (rule rnd_lower [OF y ey(2)])
    finally show ?thesis .
  qed
qed

lemma rnd_mono:
  assumes "0 \<le> x" "x \<le> y"
  shows "rnd x \<le> rnd y"
proof (cases "x = 0")
  case True
  have "0 \<le> rnd y" using assms by (intro rnd_nonneg) linarith
  with True show ?thesis by (simp add: rnd_def)
next
  case False
  with assms have "0 < x" by simp
  then show ?thesis using assms(2) by (rule rnd_mono_pos)
qed

lemma rnd_1024: "rnd 1024 = 1024"
  by code_simp

lemma fl_small:
  assumes "0 \<le> x" "x \<le> 1024"
  shows "fl x = Num (rnd x)"
proof -
  have "rnd x \<le> rnd 1024" using assms by (rule rnd_mono)
  then have "rnd x \<le> 1024" by (simp only: rnd_1024)
  moreover have "(1024::real) < 2 ^ 1024" by simp
  moreover have "0 \<le> rnd x" using assms(1) by (rule rnd_nonneg)
  ultimately show ?thesis by (simp add: fl_def Let_def)
qed

lemma rnd_error:
  "\<bar>rnd x - x\<bar> \<le> ulp x / 2"
proof (cases "x = 0")
  case True
  then show ?thesis using ulp_pos [of x] by (simp add: rnd_def)
next
  case False
  let ?u = "ulp x"
  have up: "0 < ?u" by (rule ulp_pos)
  have b: "of_int (rne (x / ?u)) - 1 / 2 \<le> x / ?u" "x / ?u \<le> of_int (rne (x / ?u)) + 1 / 2"
    using rne_bounds [of "x / ?u"] by blast+
  have "(of_int (rne (x / ?u)) - 1 / 2) * ?u \<le> x / ?u * ?u"
    using b(1) up by (intro mult_right_mono) simp_all
  then have l: "of_int (rne (x / ?u)) * ?u - ?u / 2 \<le> x"
    using up by (simp add: algebra_simps)
  have "x / ?u * ?u \<le> (of_int (rne (x / ?u)) + 1 / 2) * ?u"
    using b(2) up by (intro mult_right_mono) simp_all
  then have r: "x \<le> of_int (rne (x / ?u)) * ?u + ?u / 2"
    using up by (simp add: algebra_simps)
  have "rnd x = of_int (rne (x / ?u)) * ?u" using False by (simp add: rnd_def)
  with l r show ?thesis by linarith
qed

lemma ulp_le:
  assumes "0 < x" "x < 2 powi k" "- 1021 \<le> k"
  shows "ulp x \<le> 2 powi (k - 53)"
proof -
  have "expo x < k"
  proof (rule ccontr)
    assume "\<not> expo x < k"
    then have "(2::real) powi k \<le> 2 powi (expo x)" by (intro power_int_increasing) auto
    with expo_bounds [OF assms(1)] assms(2) show False by linarith
  qed
  then have "max (expo x) (- 1022) - 52 \<le> k - 53" using assms(3) by simp
  then have "(2::real) powi (max (expo x) (- 1022) - 52) \<le> 2 powi (k - 53)"
    by (intro power_int_increasing) auto
  then show ?thesis using assms(1) by (simp add: ulp_def)
qed

lemma rnd_error_below:
  assumes "0 \<le> x" "x < 2 powi k" "- 1021 \<le> k"
  shows "\<bar>rnd x - x\<bar> \<le> 2 powi (k - 54)"
proof (cases "x = 0")
  case True
  then show ?thesis by (simp add: rnd_def)
next
  case False
  with assms have "0 < x" by simp
  then have "ulp x \<le> 2 powi (k - 53)" using assms(2,3) by (rule ulp_le)
  moreover have "(2::real) powi (k - 53) = 2 * 2 powi (k - 54)"
  proof -
    have "k - 53 = 1 + (k - 54)" by simp
    then have "(2::real) powi (k - 53) = 2 powi (1 + (k - 54))" by (rule arg_cong)
    also have "\<dots> = 2 powi 1 * 2 powi (k - 54)" by (rule power_int_add) simp
    finally show ?thesis by simp
  qed
  ultimately show ?thesis using rnd_error [of x] by linarith
qed

lemma rnd_03: "rnd (3 / 10) = 5404319552844595 / 18014398509481984"
  by code_simp

lemma rnd_04: "rnd (4 / 10) = 3602879701896397 / 9007199254740992"
  by code_simp

lemma rnd_top:
  "rnd (100 * (5404319552844595 / 18014398509481984)) = 30"
  "rnd (100 * (3602879701896397 / 9007199254740992)) = 40"
  "rnd 60 = 60" "rnd 100 = 100"
  by code_simp+

lemma prod_03:
  assumes "0 \<le> a" "a \<le> 100"
  shows "fl (a * rnd (3 / 10)) = Num (rnd (a * rnd (3 / 10)))"
    and "0 \<le> rnd (a * rnd (3 / 10))" and "rnd (a * rnd (3 / 10)) \<le> 30"
    and "0 \<le> a * rnd (3 / 10)" and "a * rnd (3 / 10) < 32"
proof -
  let ?k = "5404319552844595 / 18014398509481984 :: real"
  have x: "0 \<le> a * ?k" "a * ?k \<le> 100 * ?k" using assms by simp_all
  then have "a * ?k \<le> 1024" by linarith
  with x(1) show "fl (a * rnd (3 / 10)) = Num (rnd (a * rnd (3 / 10)))"
    unfolding rnd_03 by (rule fl_small)
  show "0 \<le> rnd (a * rnd (3 / 10))" unfolding rnd_03 using x(1) by (rule rnd_nonneg)
  have "rnd (a * ?k) \<le> rnd (100 * ?k)" using x by (rule rnd_mono)
  then show "rnd (a * rnd (3 / 10)) \<le> 30" unfolding rnd_03 rnd_top .
  show "0 \<le> a * rnd (3 / 10)" unfolding rnd_03 by (rule x(1))
  show "a * rnd (3 / 10) < 32" unfolding rnd_03 using x(2) by linarith
qed

lemma prod_04:
  assumes "0 \<le> c" "c \<le> 100"
  shows "fl (c * rnd (4 / 10)) = Num (rnd (c * rnd (4 / 10)))"
    and "0 \<le> rnd (c * rnd (4 / 10))" and "rnd (c * rnd (4 / 10)) \<le> 40"
    and "0 \<le> c * rnd (4 / 10)" and "c * rnd (4 / 10) < 64"
proof -
  let ?k = "3602879701896397 / 9007199254740992 :: real"
  have x: "0 \<le> c * ?k" "c * ?k \<le> 100 * ?k" using assms by simp_all
  then have "c * ?k \<le> 1024" by linarith
  with x(1) show "fl (c * rnd (4 / 10)) = Num (rnd (c * rnd (4 / 10)))"
    unfolding rnd_04 by (rule fl_small)
  show "0 \<le> rnd (c * rnd (4 / 10))" unfolding rnd_04 using x(1) by (rule rnd_nonneg)
  have "rnd (c * ?k) \<le> rnd (100 * ?k)" using x by (rule rnd_mono)
  then show "rnd (c * rnd (4 / 10)) \<le> 40" unfolding rnd_04 rnd_top .
  show "0 \<le> c * rnd (4 / 10)" unfolding rnd_04 by (rule x(1))
  show "c * rnd (4 / 10) < 64" unfolding rnd_04 using x(2) by linarith
qed

lemma sum_bounded:
  assumes "0 \<le> p" "0 \<le> q" "p + q \<le> m" "rnd m = m" "m \<le> 1024"
  shows "fl (p + q) = Num (rnd (p + q))" and "0 \<le> rnd (p + q)" and "rnd (p + q) \<le> m"
proof -
  have x: "0 \<le> p + q" using assms by simp
  have "p + q \<le> 1024" using assms by linarith
  with x show "fl (p + q) = Num (rnd (p + q))" by (rule fl_small)
  show "0 \<le> rnd (p + q)" using x by (rule rnd_nonneg)
  have "rnd (p + q) \<le> rnd m" using x assms(3) by (rule rnd_mono)
  then show "rnd (p + q) \<le> m" by (simp only: assms(4))
qed

lemma fl_consts: "fl (3 / 10) = Num (rnd (3 / 10))" "fl (4 / 10) = Num (rnd (4 / 10))"
  by (rule fl_small; simp)+

lemma calculateFinalScore_cube:
  assumes "0 \<le> a" "a \<le> 100" "0 \<le> b" "b \<le> 100" "0 \<le> c" "c \<le> 100"
  shows "calculateFinalScore (Num a) (Num b) (Num c) =
     Num (rnd (rnd (rnd (a * rnd (3 / 10)) + rnd (b * rnd (3 / 10))) + rnd (c * rnd (4 / 10))))"
proof -
  let ?p1 = "rnd (a * rnd (3 / 10))"
  let ?p2 = "rnd (b * rnd (3 / 10))"
  let ?p3 = "rnd (c * rnd (4 / 10))"
  note p1 = prod_03 [OF assms(1,2)] and p2 = prod_03 [OF assms(3,4)] and p3 = prod_04 [OF assms(5,6)]
  have s60: "(60::real) \<le> 1024" and t100: "(100::real) \<le> 1024" by simp_all
  have "?p1 + ?p2 \<le> 60" using p1(3) p2(3) by linarith
  note s = sum_bounded [OF p1(2) p2(2) this rnd_top(3) s60]
  have "rnd (?p1 + ?p2) + ?p3 \<le> 100" using s(3) p3(3) by linarith
  note t = sum_bounded [OF s(2) p3(2) this rnd_top(4) t100]
  show ?thesis
    by (simp only: calculateFinalScore_def fl_consts js_mul.simps js_add.simps
        p1(1) p2(1) p3(1) s(1) t(1))
qed

lemma calculateFinalScore_cube_range:
  assumes "0 \<le> a" "a \<le> 100" "0 \<le> b" "b \<le> 100" "0 \<le> c" "c \<le> 100"
  shows "0 \<le> rnd (rnd (rnd (a * rnd (3 / 10)) + rnd (b * rnd (3 / 10))) + rnd (c * rnd (4 / 10)))"
    and "rnd (rnd (rnd (a * rnd (3 / 10)) + rnd (b * rnd (3 / 10))) + rnd (c * rnd (4 / 10))) \<le> 100"
proof -
  let ?p1 = "rnd (a * rnd (3 / 10))"
  let ?p2 = "rnd (b * rnd (3 / 10))"
  let ?p3 = "rnd (c * rnd (4 / 10))"
  note p1 = prod_03 [OF assms(1,2)] and p2 = prod_03 [OF assms(3,4)] and p3 = prod_04 [OF assms(5,6)]
  have s60: "(60::real) \<le> 1024" and t100: "(100::real) \<le> 1024" by simp_all
  have "?p1 + ?p2 \<le> 60" using p1(3) p2(3) by linarith
  note s = sum_bounded [OF p1(2) p2(2) this rnd_top(3) s60]
  have "rnd (?p1 + ?p2) + ?p3 \<le> 100" using s(3) p3(3) by linarith
  note t = sum_bounded [OF s(2) p3(2) this rnd_top(4) t100]
  show "0 \<le> rnd (rnd (?p1 + ?p2) + ?p3)" by (rule t(2))
  show "rnd (rnd (?p1 + ?p2) + ?p3) \<le> 100" by (rule t(3))
qed

lemma cube_mono:
  assumes "0 \<le> a" "a \<le> a'" "0 \<le> b" "b \<le> b'" "0 \<le> c" "c \<le> c'"
  shows "rnd (rnd (rnd (a * rnd (3 / 10)) + rnd (b * rnd (3 / 10))) + rnd (c * rnd (4 / 10)))
      \<le> rnd (rnd (rnd (a' * rnd (3 / 10)) + rnd (b' * rnd (3 / 10))) + rnd (c' * rnd (4 / 10)))"
proof -
  have k3: "0 \<le> rnd (3 / 10)" and k4: "0 \<le> rnd (4 / 10)" by (rule rnd_nonneg; simp)+
  have x1: "0 \<le> a * rnd (3 / 10)" using assms(1) k3 by (rule mult_nonneg_nonneg)
  have x2: "0 \<le> b * rnd (3 / 10)" using assms(3) k3 by (rule mult_nonneg_nonneg)
  have x3: "0 \<le> c * rnd (4 / 10)" using assms(5) k4 by (rule mult_nonneg_nonneg)
  have y1: "a * rnd (3 / 10) \<le> a' * rnd (3 / 10)" using assms(2) k3 by (rule mult_right_mono)
  have y2: "b * rnd (3 / 10) \<le> b' * rnd (3 / 10)" using assms(4) k3 by (rule mult_right_mono)
  have y3: "c * rnd (4 / 10) \<le> c' * rnd (4 / 10)" using assms(6) k4 by (rule mult_right_mono)
  note p1 = rnd_mono [OF x1 y1] and p2 = rnd_mono [OF x2 y2] and p3 = rnd_mono [OF x3 y3]
  note n1 = rnd_nonneg [OF x1] and n2 = rnd_nonneg [OF x2] and n3 = rnd_nonneg [OF x3]
  have s0: "0 \<le> rnd (a * rnd (3 / 10)) + rnd (b * rnd (3 / 10))" using n1 n2 by linarith
  have s1: "rnd (a * rnd (3 / 10)) + rnd (b * rnd (3 / 10))
      \<le> rnd (a' * rnd (3 / 10)) + rnd (b' * rnd (3 / 10))" using p1 p2 by linarith
  note s = rnd_mono [OF s0 s1] and ns = rnd_nonneg [OF s0]
  have t0: "0 \<le> rnd (rnd (a * rnd (3 / 10)) + rnd (b * rnd (3 / 10))) + rnd (c * rnd (4 / 10))"
    using ns n3 by linarith
  have t1: "rnd (rnd (a * rnd (3 / 10)) + rnd (b * rnd (3 / 10))) + rnd (c * rnd (4 / 10))
      \<le> rnd (rnd (a' * rnd (3 / 10)) + rnd (b' * rnd (3 / 10))) + rnd (c' * rnd (4 / 10))"
    using s p3 by linarith
  show ?thesis by (rule rnd_mono [OF t0 t1])
qed

lemma pow2_neg: "(2::real) powi (5 - 54) = 1 / 2 ^ 49" "(2::real) powi (6 - 54) = 1 / 2 ^ 48"
  "(2::real) powi (7 - 54) = 1 / 2 ^ 47"
  by (simp_all add: power_int_def field_simps)

lemma scaled_diff:
  assumes "\<bar>k - t\<bar> \<le> d" "0 \<le> c" "c \<le> (100::real)"
  shows "\<bar>c * k - c * t\<bar> \<le> 100 * d"
proof -
  have "\<bar>c * k - c * t\<bar> = c * \<bar>k - t\<bar>"
    using assms(2) by (simp add: abs_mult flip: right_diff_distrib)
  also have "\<dots> \<le> c * d" using assms(1,2) by (rule mult_left_mono)
  also have "\<dots> \<le> 100 * d"
  proof -
    have "0 \<le> d" using assms(1) by linarith
    with assms(3) show ?thesis by (rule mult_right_mono)
  qed
  finally show ?thesis .
qed

lemma err_combine:
  fixes e :: real
  assumes "\<bar>p1 - x1\<bar> \<le> e / 16" "\<bar>p2 - x2\<bar> \<le> e / 16" "\<bar>p3 - x3\<bar> \<le> e / 8"
    and "\<bar>s - (p1 + p2)\<bar> \<le> e / 8" "\<bar>t - (s + p3)\<bar> \<le> e / 4"
    and "\<bar>x1 - y1\<bar> \<le> e / 16" "\<bar>x2 - y2\<bar> \<le> e / 16" "\<bar>x3 - y3\<bar> \<le> e / 8"
  shows "\<bar>t - (y1 + y2 + y3)\<bar> \<le> e"
proof -
  have "\<bar>p1 - y1\<bar> \<le> e / 8" using assms(1,6) by linarith
  moreover have "\<bar>p2 - y2\<bar> \<le> e / 8" using assms(2,7) by linarith
  moreover have "\<bar>p3 - y3\<bar> \<le> e / 4" using assms(3,8) by linarith
  ultimately have "\<bar>(p1 + p2) - (y1 + y2)\<bar> \<le> e / 4" "\<bar>p3 - y3\<bar> \<le> e / 4" by linarith+
  moreover have "\<bar>s - (y1 + y2)\<bar> \<le> e / 8 + e / 4" using assms(4) calculation(1) by linarith
  ultimately have "\<bar>(s + p3) - (y1 + y2 + y3)\<bar> \<le> e / 8 + e / 4 + e / 4" by linarith
  moreover have "0 \<le> e" using assms(1) by linarith
  ultimately show ?thesis using assms(5) by linarith
qed

lemma cube_error:
  assumes "0 \<le> a" "a \<le> 100" "0 \<le> b" "b \<le> 100" "0 \<le> c" "c \<le> 100"
  shows "\<bar>rnd (rnd (rnd (a * rnd (3 / 10)) + rnd (b * rnd (3 / 10))) + rnd (c * rnd (4 / 10)))
           - (a * (3 / 10) + b * (3 / 10) + c * (4 / 10))\<bar> \<le> 1 / 2 ^ 45"
proof -
  let ?x1 = "a * rnd (3 / 10)" and ?x2 = "b * rnd (3 / 10)" and ?x3 = "c * rnd (4 / 10)"
  let ?p1 = "rnd ?x1" and ?p2 = "rnd ?x2" and ?p3 = "rnd ?x3"
  let ?s = "rnd (?p1 + ?p2)"
  note p1 = prod_03 [OF assms(1,2)] and p2 = prod_03 [OF assms(3,4)] and p3 = prod_04 [OF assms(5,6)]
  have s60: "(60::real) \<le> 1024" and t100: "(100::real) \<le> 1024" by simp_all
  have s0: "?p1 + ?p2 \<le> 60" using p1(3) p2(3) by linarith
  note s = sum_bounded [OF p1(2) p2(2) s0 rnd_top(3) s60]
  have t0: "?s + ?p3 \<le> 100" using s(3) p3(3) by linarith
  have e1: "\<bar>?p1 - ?x1\<bar> \<le> 1 / 2 ^ 49"
    using rnd_error_below [of ?x1 5] p1(4,5) by (simp add: pow2_neg(1))
  have e2: "\<bar>?p2 - ?x2\<bar> \<le> 1 / 2 ^ 49"
    using rnd_error_below [of ?x2 5] p2(4,5) by (simp add: pow2_neg(1))
  have e3: "\<bar>?p3 - ?x3\<bar> \<le> 1 / 2 ^ 48"
    using rnd_error_below [of ?x3 6] p3(4,5) by (simp add: pow2_neg(2))
  have es: "\<bar>?s - (?p1 + ?p2)\<bar> \<le> 1 / 2 ^ 48"
    using rnd_error_below [of "?p1 + ?p2" 6] p1(2) p2(2) s0 by (simp add: pow2_neg(2))
  have et: "\<bar>rnd (?s + ?p3) - (?s + ?p3)\<bar> \<le> 1 / 2 ^ 47"
    using rnd_error_below [of "?s + ?p3" 7] s(2) p3(2) t0 by (simp add: pow2_neg(3))
  have k3: "\<bar>rnd (3 / 10) - 3 / 10\<bar> \<le> 1 / (5 * 2 ^ 54)" unfolding rnd_03 by simp
  have k4: "\<bar>rnd (4 / 10) - 4 / 10\<bar> \<le> 1 / (5 * 2 ^ 53)" unfolding rnd_04 by simp
  have c3: "100 * (1 / (5 * 2 ^ 54)) \<le> (1::real) / 2 ^ 49" by simp
  have c4: "100 * (1 / (5 * 2 ^ 53)) \<le> (1::real) / 2 ^ 48" by simp
  have d1: "\<bar>?x1 - a * (3 / 10)\<bar> \<le> 1 / 2 ^ 49"
    by (rule order_trans [OF scaled_diff [OF k3 assms(1,2)] c3])
  have d2: "\<bar>?x2 - b * (3 / 10)\<bar> \<le> 1 / 2 ^ 49"
    by (rule order_trans [OF scaled_diff [OF k3 assms(3,4)] c3])
  have d3: "\<bar>?x3 - c * (4 / 10)\<bar> \<le> 1 / 2 ^ 48"
    by (rule order_trans [OF scaled_diff [OF k4 assms(5,6)] c4])
  have sc: "(1::real) / 2 ^ 49 = 1 / 2 ^ 45 / 16" "(1::real) / 2 ^ 48 = 1 / 2 ^ 45 / 8"
    "(1::real) / 2 ^ 47 = 1 / 2 ^ 45 / 4" by simp_all
  show ?thesis
    by (rule err_combine [OF e1 [unfolded sc] e2 [unfolded sc] e3 [unfolded sc] es [unfolded sc]
          et [unfolded sc] d1 [unfolded sc] d2 [unfolded sc] d3 [unfolded sc]])
qed

lemma fl_eval: "0 \<le> x \<Longrightarrow> x \<le> 1024 \<Longrightarrow> rnd x = v \<Longrightarrow> fl x = Num v"
  using fl_small [of x] by simp

lemma cfs_100:
  "calculateFinalScore (Num 100) (Num 100) (Num 100) = Num 100"
proof -
  have r: "(0::real) \<le> 100" "(100::real) \<le> 100" "(0::real) \<le> 100" "(100::real) \<le> 100"
      "(0::real) \<le> 100" "(100::real) \<le> 100"
    by simp_all
  have p1: "rnd (100 * (5404319552844595 / 18014398509481984)) = 30" by code_simp
  have p2: "rnd (100 * (5404319552844595 / 18014398509481984)) = 30" by code_simp
  have p3: "rnd (100 * (3602879701896397 / 9007199254740992)) = 40" by code_simp
  have s: "rnd (30 + 30) = 60" by code_simp
  have t: "rnd (60 + 40) = 100" by code_simp
  show ?thesis
    unfolding calculateFinalScore_cube [OF r] rnd_03 rnd_04 p1 p2 p3 s t ..
qed

lemma cfs_0:
  "calculateFinalScore (Num 0) (Num 0) (Num 0) = Num 0"
proof -
  have r: "(0::real) \<le> 0" "(0::real) \<le> 100" "(0::real) \<le> 0" "(0::real) \<le> 100"
      "(0::real) \<le> 0" "(0::real) \<le> 100"
    by simp_all
  have p1: "rnd (0 * (5404319552844595 / 18014398509481984)) = 0" by (simp add: rnd_def)
  have p2: "rnd (0 * (5404319552844595 / 18014398509481984)) = 0" by (simp add: rnd_def)
  have p3: "rnd (0 * (3602879701896397 / 9007199254740992)) = 0" by (simp add: rnd_def)
  have s: "rnd (0 + 0) = 0" by (simp add: rnd_def)
  have t: "rnd (0 + 0) = 0" by (simp add: rnd_def)
  show ?thesis
    unfolding calculateFinalScore_cube [OF r] rnd_03 rnd_04 p1 p2 p3 s t ..
qed

lemma cfs_60_92_26:
  "calculateFinalScore (Num 60) (Num 92) (Num 26) = Num (7881299347898367 / 140737488355328)"
proof -
  have r: "(0::real) \<le> 60" "(60::real) \<le> 100" "(0::real) \<le> 92" "(92::real) \<le> 100"
      "(0::real) \<le> 26" "(26::real) \<le> 100"
    by simp_all
  have p1: "rnd (60 * (5404319552844595 / 18014398509481984)) = 18" by code_simp
  have p2: "rnd (92 * (5404319552844595 / 18014398509481984)) = 7768709357214105 / 281474976710656" by code_simp
  have p3: "rnd (26 * (3602879701896397 / 9007199254740992)) = 5854679515581645 / 562949953421312" by code_simp
  have s: "rnd (18 + (7768709357214105 / 281474976710656)) = 1604407367250739 / 35184372088832" by code_simp
  have t: "rnd ((1604407367250739 / 35184372088832) + (5854679515581645 / 562949953421312)) = 7881299347898367 / 140737488355328" by code_simp
  show ?thesis
    unfolding calculateFinalScore_cube [OF r] rnd_03 rnd_04 p1 p2 p3 s t ..
qed

lemma cfs_15_92_26:
  "calculateFinalScore (Num (3 / 2)) (Num 92) (Num 26) = Num (5411356427262361 / 140737488355328)"
proof -
  have r: "(0::real) \<le> (3 / 2)" "((3 / 2)::real) \<le> 100" "(0::real) \<le> 92" "(92::real) \<le> 100"
      "(0::real) \<le> 26" "(26::real) \<le> 100"
    by simp_all
  have p1: "rnd ((3 / 2) * (5404319552844595 / 18014398509481984)) = 2026619832316723 / 4503599627370496" by code_simp
  have p2: "rnd (92 * (5404319552844595 / 18014398509481984)) = 7768709357214105 / 281474976710656" by code_simp
  have p3: "rnd (26 * (3602879701896397 / 9007199254740992)) = 5854679515581645 / 562949953421312" by code_simp
  have s: "rnd ((2026619832316723 / 4503599627370496) + (7768709357214105 / 281474976710656)) = 1973843274183475 / 70368744177664" by code_simp
  have t: "rnd ((1973843274183475 / 70368744177664) + (5854679515581645 / 562949953421312)) = 5411356427262361 / 140737488355328" by code_simp
  show ?thesis
    unfolding calculateFinalScore_cube [OF r] rnd_03 rnd_04 p1 p2 p3 s t ..
qed

lemma cfs_0_92_26:
  "calculateFinalScore (Num 0) (Num 92) (Num 26) = Num 38"
proof -
  have r: "(0::real) \<le> 0" "(0::real) \<le> 100" "(0::real) \<le> 92" "(92::real) \<le> 100"
      "(0::real) \<le> 26" "(26::real) \<le> 100"
    by simp_all
  have p1: "rnd (0 * (5404319552844595 / 18014398509481984)) = 0" by (simp add: rnd_def)
  have p2: "rnd (92 * (5404319552844595 / 18014398509481984)) = 7768709357214105 / 281474976710656" by code_simp
  have p3: "rnd (26 * (3602879701896397 / 9007199254740992)) = 5854679515581645 / 562949953421312" by code_simp
  have s: "rnd (0 + (7768709357214105 / 281474976710656)) = 7768709357214105 / 281474976710656" by code_simp
  have t: "rnd ((7768709357214105 / 281474976710656) + (5854679515581645 / 562949953421312)) = 38" by code_simp
  show ?thesis
    unfolding calculateFinalScore_cube [OF r] rnd_03 rnd_04 p1 p2 p3 s t ..
qed

lemma cfs_3_92_26:
  "calculateFinalScore (Num 3) (Num 92) (Num 26) = Num (5474688297022259 / 140737488355328)"
proof -
  have r: "(0::real) \<le> 3" "(3::real) \<le> 100" "(0::real) \<le> 92" "(92::real) \<le> 100"
      "(0::real) \<le> 26" "(26::real) \<le> 100"
    by simp_all
  have p1: "rnd (3 * (5404319552844595 / 18014398509481984)) = 2026619832316723 / 2251799813685248" by code_simp
  have p2: "rnd (92 * (5404319552844595 / 18014398509481984)) = 7768709357214105 / 281474976710656" by code_simp
  have p3: "rnd (26 * (3602879701896397 / 9007199254740992)) = 5854679515581645 / 562949953421312" by code_simp
  have s: "rnd ((2026619832316723 / 2251799813685248) + (7768709357214105 / 281474976710656)) = 8022036836253695 / 281474976710656" by code_simp
  have t: "rnd ((8022036836253695 / 281474976710656) + (5854679515581645 / 562949953421312)) = 5474688297022259 / 140737488355328" by code_simp
  show ?thesis
    unfolding calculateFinalScore_cube [OF r] rnd_03 rnd_04 p1 p2 p3 s t ..
qed

lemma cfs_70_90_70:
  "calculateFinalScore (Num 70) (Num 90) (Num 70) = Num 76"
proof -
  have r: "(0::real) \<le> 70" "(70::real) \<le> 100" "(0::real) \<le> 90" "(90::real) \<le> 100"
      "(0::real) \<le> 70" "(70::real) \<le> 100"
    by simp_all
  have p1: "rnd (70 * (5404319552844595 / 18014398509481984)) = 21" by code_simp
  have p2: "rnd (90 * (5404319552844595 / 18014398509481984)) = 27" by code_simp
  have p3: "rnd (70 * (3602879701896397 / 9007199254740992)) = 28" by code_simp
  have s: "rnd (21 + 27) = 48" by code_simp
  have t: "rnd (48 + 28) = 76" by code_simp
  show ?thesis
    unfolding calculateFinalScore_cube [OF r] rnd_03 rnd_04 p1 p2 p3 s t ..
qed

lemma cfs_90_90_70:
  "calculateFinalScore (Num 90) (Num 90) (Num 70) = Num 82"
proof -
  have r: "(0::real) \<le> 90" "(90::real) \<le> 100" "(0::real) \<le> 90" "(90::real) \<le> 100"
      "(0::real) \<le> 70" "(70::real) \<le> 100"
    by simp_all
  have p1: "rnd (90 * (5404319552844595 / 18014398509481984)) = 27" by code_simp
  have p2: "rnd (90 * (5404319552844595 / 18014398509481984)) = 27" by code_simp
  have p3: "rnd (70 * (3602879701896397 / 9007199254740992)) = 28" by code_simp
  have s: "rnd (27 + 27) = 54" by code_simp
  have t: "rnd (54 + 28) = 82" by code_simp
  show ?thesis
    unfolding calculateFinalScore_cube [OF r] rnd_03 rnd_04 p1 p2 p3 s t ..
qed

lemma cfs_80_90_70:
  "calculateFinalScore (Num 80) (Num 90) (Num 70) = Num 79"
proof -
  have r: "(0::real) \<le> 80" "(80::real) \<le> 100" "(0::real) \<le> 90" "(90::real) \<le> 100"
      "(0::real) \<le> 70" "(70::real) \<le> 100"
    by simp_all
  have p1: "rnd (80 * (5404319552844595 / 18014398509481984)) = 24" by code_simp
  have p2: "rnd (90 * (5404319552844595 / 18014398509481984)) = 27" by code_simp
  have p3: "rnd (70 * (3602879701896397 / 9007199254740992)) = 28" by code_simp
  have s: "rnd (24 + 27) = 51" by code_simp
  have t: "rnd (51 + 28) = 79" by code_simp
  show ?thesis
    unfolding calculateFinalScore_cube [OF r] rnd_03 rnd_04 p1 p2 p3 s t ..
qed

lemma cfs_50_50_50:
  "calculateFinalScore (Num 50) (Num 50) (Num 50) = Num 50"
proof -
  have r: "(0::real) \<le> 50" "(50::real) \<le> 100" "(0::real) \<le> 50" "(50::real) \<le> 100"
      "(0::real) \<le> 50" "(50::real) \<le> 100"
    by simp_all
  have p1: "rnd (50 * (5404319552844595 / 18014398509481984)) = 15" by code_simp
  have p2: "rnd (50 * (5404319552844595 / 18014398509481984)) = 15" by code_simp
  have p3: "rnd (50 * (3602879701896397 / 9007199254740992)) = 20" by code_simp
  have s: "rnd (15 + 15) = 30" by code_simp
  have t: "rnd (30 + 20) = 50" by code_simp
  show ?thesis
    unfolding calculateFinalScore_cube [OF r] rnd_03 rnd_04 p1 p2 p3 s t ..
qed

lemma affine_combination_0_3:
  "js_add (js_mul (Num (1 / 2)) (calculateFinalScore (Num 0) (Num 92) (Num 26)))
          (js_mul (Num (1 / 2)) (calculateFinalScore (Num 3) (Num 92) (Num 26)))
     = Num (2705678213631181 / 70368744177664)"
proof -
  have h0: "fl (1 / 2 * 38) = Num 19"
    by (rule fl_eval) (simp, simp, code_simp)
  have h3: "fl (1 / 2 * (5474688297022259 / 140737488355328)) = Num (5474688297022259 / 281474976710656)"
    by (rule fl_eval) (simp, simp, code_simp)
  have hs: "fl (19 + (5474688297022259 / 281474976710656)) = Num (2705678213631181 / 70368744177664)"
    by (rule fl_eval) (simp, simp, code_simp)
  show ?thesis
    by (simp only: cfs_0_92_26 cfs_3_92_26 js_mul.simps js_add.simps h0 h3 hs)
qed

section \<open>Properties of the grading helpers\<close>

lemma js_ge_Num [simp]: "js_ge (Num a) (Num b) \<longleftrightarrow> b \<le> a"
  by (simp add: js_ge_def not_less)

lemma js_lt_Num [simp]: "js_lt (Num a) (Num b) \<longleftrightarrow> a < b"
  by (simp add: js_lt_def)

lemma js_gt_Num [simp]: "js_gt (Num a) (Num b) \<longleftrightarrow> b < a"
  by (simp add: js_gt_def)

lemma js_ge_NaN [simp]: "\<not> js_ge NaN y"
  by (simp add: js_ge_def)

lemma js_add_NaN_right [simp]: "js_add x NaN = NaN"
  by (cases x) simp_all

lemma scoreToGrade_Num:
  "scoreToGrade (Num r) =
     (if 80 \<le> r then ''A'' else if 75 \<le> r then ''B+'' else if 69 \<le> r then ''B''
      else if 65 \<le> r then ''C+'' else if 56 \<le> r then ''C'' else ''D'')"
  by (simp add: scoreToGrade_def)

lemma scoreToGrade_range:
  "scoreToGrade x \<in> {''A'', ''B+'', ''B'', ''C+'', ''C'', ''D''}"
  by (simp add: scoreToGrade_def)

text \<open>
  C1.  On every real score \<open>scoreToGrade\<close> walks the thresholds 80, 75, 69, 65, 56 from the
  highest down and returns the band of the first one that the score reaches, \<open>D\<close> when it
  reaches none.  So each band is exactly one half-open interval, the result is always one of
  the six bands, and a boundary value belongs to the higher band: 80.0 is an \<open>A\<close> and
  79.999 is a \<open>B+\<close>.
\<close>

theorem scoreToGrade_bands:
  "scoreToGrade (Num r) =
     (if r \<ge> 80 then ''A'' else if r \<ge> 75 then ''B+'' else if r \<ge> 69 then ''B''
      else if r \<ge> 65 then ''C+'' else if r \<ge> 56 then ''C'' else ''D'')
   \<and> (scoreToGrade (Num r) = ''A'' \<longleftrightarrow> 80 \<le> r)
   \<and> (scoreToGrade (Num r) = ''B+'' \<longleftrightarrow> 75 \<le> r \<and> r < 80)
   \<and> (scoreToGrade (Num r) = ''B'' \<longleftrightarrow> 69 \<le> r \<and> r < 75)
   \<and> (scoreToGrade (Num r) = ''C+'' \<longleftrightarrow> 65 \<le> r \<and> r < 69)
   \<and> (scoreToGrade (Num r) = ''C'' \<longleftrightarrow> 56 \<le> r \<and> r < 65)
   \<and> (scoreToGrade (Num r) = ''D'' \<longleftrightarrow> r < 56)
   \<and> scoreToGrade (Num r) \<in> {''A'', ''B+'', ''B'', ''C+'', ''C'', ''D''}
   \<and> scoreToGrade (Num 80.0) = ''A''
   \<and> scoreToGrade (Num 79.999) = ''B+''"
  by (simp add: scoreToGrade_Num)

theorem scoreToGrade_bands_witness:
  "scoreToGrade (Num 72.5) = ''B'' \<and> scoreToGrade (Num 55.9) = ''D''"
  using scoreToGrade_bands [of "72.5"] scoreToGrade_bands [of "55.9"] by simp

text \<open>
  C5 (as amended).  At the band boundaries 79.99 is a \<open>B+\<close> and 80.00 an \<open>A\<close>, while
  74.99 is a \<open>B\<close> (it is below 75 and at least 69).  Each of the five thresholds is
  inclusive on the lower bound of the higher band: the threshold itself gets the higher
  band, the value one hundredth below it gets the next lower one.
\<close>

theorem scoreToGrade_boundaries:
  "scoreToGrade (Num 79.99) = ''B+'' \<and> scoreToGrade (Num 80.00) = ''A''
   \<and> scoreToGrade (Num 74.99) = ''B'' \<and> scoreToGrade (Num 75.00) = ''B+''
   \<and> scoreToGrade (Num 68.99) = ''C+'' \<and> scoreToGrade (Num 69.00) = ''B''
   \<and> scoreToGrade (Num 64.99) = ''C'' \<and> scoreToGrade (Num 65.00) = ''C+''
   \<and> scoreToGrade (Num 55.99) = ''D'' \<and> scoreToGrade (Num 56.00) = ''C''"
  by (simp add: scoreToGrade_Num)

text \<open>
  C5 as stated fails: the claim gives 74.99 the band \<open>C+\<close>, the function returns \<open>B\<close>.
\<close>

theorem scoreToGrade_7499_counterexample:
  "scoreToGrade (Num 74.99) = ''B'' \<and> scoreToGrade (Num 74.99) \<noteq> ''C+''"
  by (simp add: scoreToGrade_Num)

text \<open>
  C2 (as amended).  \<open>calculateFinalScore\<close> is \<open>tb1 * 0.3 + tb2 * 0.3 + uas * 0.4\<close> as the
  double arithmetic computes it: the constants are the doubles nearest to 0.3 and 0.4, and
  each product and each sum is rounded.  For all scores in \<open>[0,100]\<^sup>3\<close> the result is a
  finite number in \<open>[0, 100]\<close> that differs from the exact weighted sum by at most
  \<open>2 ^ -45\<close>, and it is monotonically non-decreasing in each argument.  All three scores at
  100 give 100, all three at 0 give 0.
\<close>

theorem calculateFinalScore_double:
  "calculateFinalScore s1 s2 e =
     js_add (js_add (js_mul s1 (fl 0.3)) (js_mul s2 (fl 0.3))) (js_mul e (fl 0.4))
   \<and> (0 \<le> a \<and> a \<le> 100 \<and> 0 \<le> b \<and> b \<le> 100 \<and> 0 \<le> c \<and> c \<le> 100 \<longrightarrow>
        (\<exists>r. calculateFinalScore (Num a) (Num b) (Num c) = Num r \<and> 0 \<le> r \<and> r \<le> 100
             \<and> \<bar>r - (a * 0.3 + b * 0.3 + c * 0.4)\<bar> \<le> 1 / 2 ^ 45))
   \<and> (0 \<le> x \<and> x \<le> y \<and> y \<le> 100 \<and> 0 \<le> b \<and> b \<le> 100 \<and> 0 \<le> c \<and> c \<le> 100 \<longrightarrow>
        js_ge (calculateFinalScore (Num y) (Num b) (Num c))
              (calculateFinalScore (Num x) (Num b) (Num c)))
   \<and> (0 \<le> x \<and> x \<le> y \<and> y \<le> 100 \<and> 0 \<le> a \<and> a \<le> 100 \<and> 0 \<le> c \<and> c \<le> 100 \<longrightarrow>
        js_ge (calculateFinalScore (Num a) (Num y) (Num c))
              (calculateFinalScore (Num a) (Num x) (Num c)))
   \<and> (0 \<le> x \<and> x \<le> y \<and> y \<le> 100 \<and> 0 \<le> a \<and> a \<le> 100 \<and> 0 \<le> b \<and> b \<le> 100 \<longrightarrow>
        js_ge (calculateFinalScore (Num a) (Num b) (Num y))
              (calculateFinalScore (Num a) (Num b) (Num x)))
   \<and> calculateFinalScore (Num 100) (Num 100) (Num 100) = Num 100
   \<and> calculateFinalScore (Num 0) (Num 0) (Num 0) = Num 0"
proof -
  have def: "calculateFinalScore s1 s2 e =
     js_add (js_add (js_mul s1 (fl 0.3)) (js_mul s2 (fl 0.3))) (js_mul e (fl 0.4))"
    by (simp add: calculateFinalScore_def)
  have fin: "0 \<le> a \<and> a \<le> 100 \<and> 0 \<le> b \<and> b \<le> 100 \<and> 0 \<le> c \<and> c \<le> 100 \<longrightarrow>
        (\<exists>r. calculateFinalScore (Num a) (Num b) (Num c) = Num r \<and> 0 \<le> r \<and> r \<le> 100
             \<and> \<bar>r - (a * 0.3 + b * 0.3 + c * 0.4)\<bar> \<le> 1 / 2 ^ 45)"
  proof
    assume h: "0 \<le> a \<and> a \<le> 100 \<and> 0 \<le> b \<and> b \<le> 100 \<and> 0 \<le> c \<and> c \<le> 100"
    then have r: "0 \<le> a" "a \<le> 100" "0 \<le> b" "b \<le> 100" "0 \<le> c" "c \<le> 100" by simp_all
    show "\<exists>r. calculateFinalScore (Num a) (Num b) (Num c) = Num r \<and> 0 \<le> r \<and> r \<le> 100
             \<and> \<bar>r - (a * 0.3 + b * 0.3 + c * 0.4)\<bar> \<le> 1 / 2 ^ 45"
      using calculateFinalScore_cube [OF r] calculateFinalScore_cube_range [OF r]
        cube_error [OF r] by blast
  qed
  have mono: "\<And>a a' b b' c c'. 0 \<le> a \<Longrightarrow> a \<le> a' \<Longrightarrow> a' \<le> 100 \<Longrightarrow> 0 \<le> b \<Longrightarrow> b \<le> b'
      \<Longrightarrow> b' \<le> 100 \<Longrightarrow> 0 \<le> c \<Longrightarrow> c \<le> c' \<Longrightarrow> c' \<le> 100
      \<Longrightarrow> js_ge (calculateFinalScore (Num a') (Num b') (Num c'))
               (calculateFinalScore (Num a) (Num b) (Num c))"
  proof -
    fix a a' b b' c c' :: real
    assume h: "0 \<le> a" "a \<le> a'" "a' \<le> 100" "0 \<le> b" "b \<le> b'" "b' \<le> 100"
      "0 \<le> c" "c \<le> c'" "c' \<le> 100"
    then have lo: "0 \<le> a" "a \<le> 100" "0 \<le> b" "b \<le> 100" "0 \<le> c" "c \<le> 100"
      and hi: "0 \<le> a'" "a' \<le> 100" "0 \<le> b'" "b' \<le> 100" "0 \<le> c'" "c' \<le> 100"
      by linarith+
    show "js_ge (calculateFinalScore (Num a') (Num b') (Num c'))
               (calculateFinalScore (Num a) (Num b) (Num c))"
      unfolding calculateFinalScore_cube [OF lo] calculateFinalScore_cube [OF hi] js_ge_Num
      by (rule cube_mono [OF h(1,2,4,5,7,8)])
  qed
  have m1: "0 \<le> x \<and> x \<le> y \<and> y \<le> 100 \<and> 0 \<le> b \<and> b \<le> 100 \<and> 0 \<le> c \<and> c \<le> 100 \<longrightarrow>
        js_ge (calculateFinalScore (Num y) (Num b) (Num c))
              (calculateFinalScore (Num x) (Num b) (Num c))"
    using mono [of x y b b c c] by simp
  have m2: "0 \<le> x \<and> x \<le> y \<and> y \<le> 100 \<and> 0 \<le> a \<and> a \<le> 100 \<and> 0 \<le> c \<and> c \<le> 100 \<longrightarrow>
        js_ge (calculateFinalScore (Num a) (Num y) (Num c))
              (calculateFinalScore (Num a) (Num x) (Num c))"
    using mono [of a a x y c c] by simp
  have m3: "0 \<le> x \<and> x \<le> y \<and> y \<le> 100 \<and> 0 \<le> a \<and> a \<le> 100 \<and> 0 \<le> b \<and> b \<le> 100 \<longrightarrow>
        js_ge (calculateFinalScore (Num a) (Num b) (Num y))
              (calculateFinalScore (Num a) (Num b) (Num x))"
    using mono [of a a b b x y] by simp
  from def fin m1 m2 m3 cfs_100 cfs_0 show ?thesis by blast
qed

text \<open>
  The theorem at the scores 70, 90, 70 and at a first score raised to 90: the final scores
  are 76 and 82.
\<close>

theorem calculateFinalScore_double_witness:
  "(0::real) \<le> 70 \<and> (70::real) \<le> 90 \<and> (90::real) \<le> 100
   \<and> calculateFinalScore (Num 70) (Num 90) (Num 70) = Num 76
   \<and> calculateFinalScore (Num 90) (Num 90) (Num 70) = Num 82
   \<and> js_ge (calculateFinalScore (Num 90) (Num 90) (Num 70))
            (calculateFinalScore (Num 70) (Num 90) (Num 70))
   \<and> js_ge (calculateFinalScore (Num 70) (Num 90) (Num 90))
            (calculateFinalScore (Num 70) (Num 90) (Num 70))"
  using calculateFinalScore_double [of NaN NaN NaN 70 90 70 70 90]
  by (simp add: cfs_70_90_70 cfs_90_90_70)

text \<open>
  C2 as stated fails.  At the scores 60, 92, 26 the function returns the double just below
  56, not the weighted sum 56.  And it is not affine in its first argument: at 1.5, the
  midpoint of 0 and 3, it returns the double just below 38.45, while the mean of its values
  at 0 and at 3 is larger, whether the mean is computed in double arithmetic or exactly.
\<close>

theorem calculateFinalScore_counterexample:
  "calculateFinalScore (Num 60) (Num 92) (Num 26) = Num (7881299347898367 / 140737488355328)
   \<and> (7881299347898367 / 140737488355328 :: real) < 60 * 0.3 + 92 * 0.3 + 26 * 0.4
   \<and> calculateFinalScore (Num (1 / 2 * 0 + (1 - 1 / 2) * 3)) (Num 92) (Num 26)
       = Num (5411356427262361 / 140737488355328)
   \<and> js_add (js_mul (Num (1 / 2)) (calculateFinalScore (Num 0) (Num 92) (Num 26)))
            (js_mul (Num (1 - 1 / 2)) (calculateFinalScore (Num 3) (Num 92) (Num 26)))
       = Num (2705678213631181 / 70368744177664)
   \<and> (5411356427262361 / 140737488355328 :: real) < 2705678213631181 / 70368744177664
   \<and> calculateFinalScore (Num 0) (Num 92) (Num 26) = Num 38
   \<and> calculateFinalScore (Num 3) (Num 92) (Num 26) = Num (5474688297022259 / 140737488355328)
   \<and> (5411356427262361 / 140737488355328 :: real)
       < 1 / 2 * 38 + (1 - 1 / 2) * (5474688297022259 / 140737488355328)"
proof -
  have a: "(1 / 2 * 0 + (1 - 1 / 2) * 3 :: real) = 3 / 2" by simp
  have b: "(1 - 1 / 2 :: real) = 1 / 2" by simp
  have mid: "calculateFinalScore (Num (1 / 2 * 0 + (1 - 1 / 2) * 3)) (Num 92) (Num 26)
       = Num (5411356427262361 / 140737488355328)"
    by (simp only: a cfs_15_92_26)
  have mean: "js_add (js_mul (Num (1 / 2)) (calculateFinalScore (Num 0) (Num 92) (Num 26)))
            (js_mul (Num (1 - 1 / 2)) (calculateFinalScore (Num 3) (Num 92) (Num 26)))
       = Num (2705678213631181 / 70368744177664)"
    by (simp only: b affine_combination_0_3)
  have c: "(7881299347898367 / 140737488355328 :: real) < 60 * 0.3 + 92 * 0.3 + 26 * 0.4"
    "(5411356427262361 / 140737488355328 :: real) < 2705678213631181 / 70368744177664"
    "(5411356427262361 / 140737488355328 :: real)
       < 1 / 2 * 38 + (1 - 1 / 2) * (5474688297022259 / 140737488355328)"
    by simp_all
  show ?thesis
    by (intro conjI cfs_60_92_26 mid mean c cfs_0_92_26 cfs_3_92_26)
qed

text \<open>
  C10.  \<open>scoreToGrade\<close> returns a band on every number, the non-finite ones included.  A
  \<open>NaN\<close> score fails each of the five threshold comparisons and so gets \<open>D\<close>; a \<open>NaN\<close> in
  any argument of \<open>calculateFinalScore\<close> (what a non-numeric operand becomes in the
  multiplication) makes the final score \<open>NaN\<close>, hence the grade \<open>D\<close>.  \<open>D\<close> is a key of
  \<open>gradeColours\<close>, so the lookup gives the colours of the band and not the default entry.
\<close>

theorem scoreToGrade_NaN:
  "scoreToGrade x \<in> {''A'', ''B+'', ''B'', ''C+'', ''C'', ''D''}
   \<and> \<not> js_ge NaN (Num 80) \<and> \<not> js_ge NaN (Num 75) \<and> \<not> js_ge NaN (Num 69)
   \<and> \<not> js_ge NaN (Num 65) \<and> \<not> js_ge NaN (Num 56)
   \<and> scoreToGrade NaN = ''D''
   \<and> calculateFinalScore NaN b c = NaN
   \<and> calculateFinalScore a NaN c = NaN
   \<and> calculateFinalScore a b NaN = NaN
   \<and> scoreToGrade (calculateFinalScore NaN b c) = ''D''
   \<and> scoreToGrade (calculateFinalScore a NaN c) = ''D''
   \<and> scoreToGrade (calculateFinalScore a b NaN) = ''D''
   \<and> gradeColours (scoreToGrade NaN) = Some (''#D82C20'', ''#FFFFFF'')
   \<and> gradeColours (scoreToGrade NaN) \<noteq> gradeColours ''default''"
proof -
  have nan: "calculateFinalScore NaN b c = NaN" "calculateFinalScore a NaN c = NaN"
      "calculateFinalScore a b NaN = NaN"
    by (simp_all add: calculateFinalScore_def)
  have d: "scoreToGrade NaN = ''D''"
    by (simp add: scoreToGrade_def)
  have col: "gradeColours ''D'' = Some (''#D82C20'', ''#FFFFFF'')"
      "gradeColours ''default'' = Some (''#666666'', ''#FFFFFF'')"
    by (simp_all add: gradeColours_def)
  show ?thesis
    using scoreToGrade_range [of x] by (simp add: nan d col)
qed

section \<open>Properties of the database and the handlers\<close>

lemma in_range_iff:
  "in_range x \<longleftrightarrow> \<not> isNaN x \<and> \<not> js_lt x (Num 0) \<and> \<not> js_gt x (Num 100)"
  by (cases x) (auto simp: in_range_def isNaN_def js_lt_def js_gt_def)

lemma select_by_nim_empty:
  "select_by_nim db n = [] \<longleftrightarrow> n \<notin> set (map nim (mahasiswa db))"
  by (auto simp: select_by_nim_def filter_empty_conv)

lemma fold_max_ge: "(a::int) \<le> fold max xs a"
  by (induction xs arbitrary: a) (auto intro: order_trans [OF max.cobounded2])

lemma fold_max_mem: "(x::int) \<in> set xs \<Longrightarrow> x \<le> fold max xs a"
proof (induction xs arbitrary: a)
  case Nil
  then show ?case by simp
next
  case (Cons y ys)
  show ?case
  proof (cases "x = y")
    case True
    have "x \<le> max y a" using True by simp
    also have "\<dots> \<le> fold max ys (max y a)" by (rule fold_max_ge)
    finally show ?thesis by simp
  next
    case False
    with Cons show ?thesis by simp
  qed
qed

lemma next_rowid_fresh: "next_rowid db \<notin> set (map id_col (mahasiswa db))"
proof
  assume "next_rowid db \<in> set (map id_col (mahasiswa db))"
  then have "next_rowid db \<le> fold max (map id_col (mahasiswa db)) (sqlite_sequence db)"
    by (rule fold_max_mem)
  then show False by (simp add: next_rowid_def)
qed

lemma next_rowid_gt_seq: "sqlite_sequence db < next_rowid db"
  using fold_max_ge [of "sqlite_sequence db" "map id_col (mahasiswa db)"]
  by (simp add: next_rowid_def)

lemma handleSaveStudent_valid:
  assumes "form_valid nama_txt nim_txt matkul_txt tb1_txt tb2_txt uas_txt"
  shows "handleSaveStudent nama_txt nim_txt matkul_txt tb1_txt tb2_txt uas_txt db =
     (if nim_txt \<in> set (map nim (mahasiswa db)) then (DuplicateKey, db)
      else if trim nim_txt \<in> set (map nim (mahasiswa db))
      then (Alert ''Error'' ''Terjadi kesalahan saat menyimpan data'', db)
      else (Inserted,
            db\<lparr>mahasiswa := mahasiswa db @
                  [\<lparr>id_col = next_rowid db, nama = trim nama_txt, nim = trim nim_txt,
                    matkul = trim matkul_txt, tb1 = parseFloat tb1_txt,
                    tb2 = parseFloat tb2_txt, uas = parseFloat uas_txt\<rparr>],
                sqlite_sequence := next_rowid db\<rparr>))"
  using assms
  by (simp add: handleSaveStudent_def form_valid_def in_range_iff select_by_nim_empty Let_def
      insert_mahasiswa_def DuplicateKey_def Inserted_def)

lemma handleSaveStudent_invalid:
  assumes "\<not> form_valid nama_txt nim_txt matkul_txt tb1_txt tb2_txt uas_txt"
  shows "handleSaveStudent nama_txt nim_txt matkul_txt tb1_txt tb2_txt uas_txt db =
     (if nama_txt = [] \<or> nim_txt = [] \<or> matkul_txt = []
         \<or> tb1_txt = [] \<or> tb2_txt = [] \<or> uas_txt = []
      then (Alert ''Peringatan'' ''Semua field harus diisi'', db)
      else (Alert ''Peringatan'' ''Nilai harus angka antara 0 dan 100'', db))"
  using assms
  by (auto simp add: handleSaveStudent_def form_valid_def in_range_iff Let_def)

lemma trim_Nil [simp]: "trim [] = []"
  by (simp add: trim_def)

lemma form_valid_trimmed:
  assumes "form_valid (trim nama_txt) (trim nim_txt) (trim matkul_txt) tb1_txt tb2_txt uas_txt"
  shows "form_valid nama_txt nim_txt matkul_txt tb1_txt tb2_txt uas_txt"
proof -
  have ne: "t \<noteq> []" if "trim t \<noteq> []" for t
    using that by (cases t) simp_all
  from assms show ?thesis
    by (simp add: form_valid_def ne)
qed

lemma form_valid_not_blank:
  assumes "form_valid nama_txt nim_txt matkul_txt tb1_txt tb2_txt uas_txt"
    and "\<not> blank nama_txt" "\<not> blank nim_txt" "\<not> blank matkul_txt"
  shows "form_valid (trim nama_txt) (trim nim_txt) (trim matkul_txt) tb1_txt tb2_txt uas_txt"
  using assms by (simp add: form_valid_def blank_def)

lemma fl_scores:
  "fl 10 = Num 10" "fl 20 = Num 20" "fl 30 = Num 30" "fl 50 = Num 50"
  "fl 70 = Num 70" "fl 80 = Num 80" "fl 90 = Num 90"
proof -
  have "rnd 10 = 10" by code_simp
  then show "fl 10 = Num 10" by (intro fl_eval) simp_all
  have "rnd 20 = 20" by code_simp
  then show "fl 20 = Num 20" by (intro fl_eval) simp_all
  have "rnd 30 = 30" by code_simp
  then show "fl 30 = Num 30" by (intro fl_eval) simp_all
  have "rnd 50 = 50" by code_simp
  then show "fl 50 = Num 50" by (intro fl_eval) simp_all
  have "rnd 70 = 70" by code_simp
  then show "fl 70 = Num 70" by (intro fl_eval) simp_all
  have "rnd 80 = 80" by code_simp
  then show "fl 80 = Num 80" by (intro fl_eval) simp_all
  have "rnd 90 = 90" by code_simp
  then show "fl 90 = Num 90" by (intro fl_eval) simp_all
qed

lemmas eval_defs = parseFloat_def parseUnsigned_def parseExponent_def scale10_def decimalValue_def
   digitValue_def isDigit_def whiteSpace_def trim_def in_range_def form_valid_def fl_scores

text \<open>
  C3 (as amended).  The candidate that \<open>handleSaveStudent\<close> inserts has the trimmed name,
  NIM and course and the three parsed scores.  When it passes validation (no required field
  empty, the three scores within \<open>[0, 100]\<close>) and its NIM, entered without surrounding white
  space, is the NIM of a stored row, the save reports \<open>DuplicateKey\<close> (the inline error under
  the NIM field) and leaves the database unchanged.  Every save that does not end in the
  success alert leaves the database unchanged.  When no input is white space only, the save
  succeeds only if no required field of the candidate is empty, the three scores are within
  \<open>[0, 100]\<close> and the NIM is not stored already, and it then appends one row with the
  candidate's fields and a fresh id.  A valid candidate whose NIM, entered without
  surrounding white space, is not stored is inserted.  Nothing is said of an input that is
  white space only, nor of the lookup of a NIM entered with surrounding white space.
\<close>

theorem handleSaveStudent_insert:
  "(form_valid (trim nama_txt) (trim nim_txt) (trim matkul_txt) tb1_txt tb2_txt uas_txt
      \<and> trim nim_txt = nim_txt
      \<and> nim_txt \<in> set (map nim (mahasiswa db))
     \<longrightarrow> handleSaveStudent nama_txt nim_txt matkul_txt tb1_txt tb2_txt uas_txt db
          = (DuplicateKey, db))
   \<and> (fst (handleSaveStudent nama_txt nim_txt matkul_txt tb1_txt tb2_txt uas_txt db) \<noteq> Inserted
     \<longrightarrow> snd (handleSaveStudent nama_txt nim_txt matkul_txt tb1_txt tb2_txt uas_txt db) = db)
   \<and> (\<not> blank nama_txt \<and> \<not> blank nim_txt \<and> \<not> blank matkul_txt
      \<and> fst (handleSaveStudent nama_txt nim_txt matkul_txt tb1_txt tb2_txt uas_txt db) = Inserted
     \<longrightarrow> form_valid (trim nama_txt) (trim nim_txt) (trim matkul_txt) tb1_txt tb2_txt uas_txt
         \<and> trim nim_txt \<notin> set (map nim (mahasiswa db))
         \<and> snd (handleSaveStudent nama_txt nim_txt matkul_txt tb1_txt tb2_txt uas_txt db)
            = db\<lparr>mahasiswa := mahasiswa db @
                  [\<lparr>id_col = next_rowid db, nama = trim nama_txt, nim = trim nim_txt,
                    matkul = trim matkul_txt, tb1 = parseFloat tb1_txt,
                    tb2 = parseFloat tb2_txt, uas = parseFloat uas_txt\<rparr>],
                sqlite_sequence := next_rowid db\<rparr>
         \<and> next_rowid db \<notin> set (map id_col (mahasiswa db)))
   \<and> (form_valid (trim nama_txt) (trim nim_txt) (trim matkul_txt) tb1_txt tb2_txt uas_txt
      \<and> trim nim_txt = nim_txt
      \<and> nim_txt \<notin> set (map nim (mahasiswa db))
     \<longrightarrow> fst (handleSaveStudent nama_txt nim_txt matkul_txt tb1_txt tb2_txt uas_txt db) = Inserted)"
proof (cases "form_valid nama_txt nim_txt matkul_txt tb1_txt tb2_txt uas_txt")
  case True
  have t: "\<not> blank nama_txt \<and> \<not> blank nim_txt \<and> \<not> blank matkul_txt \<longrightarrow>
      form_valid (trim nama_txt) (trim nim_txt) (trim matkul_txt) tb1_txt tb2_txt uas_txt"
    using form_valid_not_blank [OF True] by simp
  show ?thesis
    using t next_rowid_fresh [of db]
    by (simp add: handleSaveStudent_valid [OF True] DuplicateKey_def Inserted_def)
next
  case False
  then have f: "\<not> form_valid (trim nama_txt) (trim nim_txt) (trim matkul_txt) tb1_txt tb2_txt uas_txt"
    using form_valid_trimmed by blast
  show ?thesis
    using f by (simp add: handleSaveStudent_invalid [OF False] Inserted_def)
qed

text \<open>
  The theorem at a concrete database: a second student under the stored NIM \<open>001\<close> is
  refused; one under the new NIM \<open>002\<close>, the name entered between blanks, is inserted with
  the trimmed name under the next id.
\<close>

theorem handleSaveStudent_insert_witness:
  "handleSaveStudent ''Budi'' ''001'' ''CS'' ''50'' ''50'' ''50''
     \<lparr>mahasiswa = [\<lparr>id_col = 1, nama = ''Ani'', nim = ''001'', matkul = ''CS'',
                     tb1 = Num 80, tb2 = Num 90, uas = Num 70\<rparr>],
      sqlite_sequence = 1, settings = None\<rparr>
   = (DuplicateKey,
      \<lparr>mahasiswa = [\<lparr>id_col = 1, nama = ''Ani'', nim = ''001'', matkul = ''CS'',
                     tb1 = Num 80, tb2 = Num 90, uas = Num 70\<rparr>],
      sqlite_sequence = 1, settings = None\<rparr>)
   \<and> handleSaveStudent '' Budi  '' ''002'' ''CS'' ''50'' ''50'' ''50''
     \<lparr>mahasiswa = [\<lparr>id_col = 1, nama = ''Ani'', nim = ''001'', matkul = ''CS'',
                     tb1 = Num 80, tb2 = Num 90, uas = Num 70\<rparr>],
      sqlite_sequence = 1, settings = None\<rparr>
   = (Inserted,
      \<lparr>mahasiswa = [\<lparr>id_col = 1, nama = ''Ani'', nim = ''001'', matkul = ''CS'',
                     tb1 = Num 80, tb2 = Num 90, uas = Num 70\<rparr>,
                    \<lparr>id_col = 2, nama = ''Budi'', nim = ''002'', matkul = ''CS'',
                     tb1 = Num 50, tb2 = Num 50, uas = Num 50\<rparr>],
      sqlite_sequence = 2, settings = None\<rparr>)"
  using handleSaveStudent_insert [of "''Budi''" "''001''" "''CS''" "''50''" "''50''" "''50''"
     "\<lparr>mahasiswa = [\<lparr>id_col = 1, nama = ''Ani'', nim = ''001'', matkul = ''CS'',
                     tb1 = Num 80, tb2 = Num 90, uas = Num 70\<rparr>],
      sqlite_sequence = 1, settings = None\<rparr>"]
    handleSaveStudent_insert [of "'' Budi  ''" "''002''" "''CS''" "''50''" "''50''" "''50''"
     "\<lparr>mahasiswa = [\<lparr>id_col = 1, nama = ''Ani'', nim = ''001'', matkul = ''CS'',
                     tb1 = Num 80, tb2 = Num 90, uas = Num 70\<rparr>],
      sqlite_sequence = 1, settings = None\<rparr>"]
  by (simp add: eval_defs blank_def next_rowid_def prod_eq_iff)

text \<open>
  C3 as stated fails: with an empty name the candidate whose NIM \<open>001\<close> is stored is
  refused by the presence check, which runs first, and not with \<open>DuplicateKey\<close>.
\<close>

theorem handleSaveStudent_counterexample:
  "''001'' \<in> set (map nim (mahasiswa
     \<lparr>mahasiswa = [\<lparr>id_col = 1, nama = ''Ani'', nim = ''001'', matkul = ''CS'',
                     tb1 = Num 80, tb2 = Num 90, uas = Num 70\<rparr>],
      sqlite_sequence = 1, settings = None\<rparr>))
   \<and> fst (handleSaveStudent '''' ''001'' ''CS'' ''50'' ''50'' ''50''
     \<lparr>mahasiswa = [\<lparr>id_col = 1, nama = ''Ani'', nim = ''001'', matkul = ''CS'',
                     tb1 = Num 80, tb2 = Num 90, uas = Num 70\<rparr>],
      sqlite_sequence = 1, settings = None\<rparr>) = Alert ''Peringatan'' ''Semua field harus diisi''
   \<and> fst (handleSaveStudent '''' ''001'' ''CS'' ''50'' ''50'' ''50''
     \<lparr>mahasiswa = [\<lparr>id_col = 1, nama = ''Ani'', nim = ''001'', matkul = ''CS'',
                     tb1 = Num 80, tb2 = Num 90, uas = Num 70\<rparr>],
      sqlite_sequence = 1, settings = None\<rparr>) \<noteq> DuplicateKey"
  by (simp add: handleSaveStudent_def DuplicateKey_def)

lemma filter_id_remove1:
  "distinct (map id_col rows) \<Longrightarrow> r \<in> set rows \<Longrightarrow>
     filter (\<lambda>x. id_col x \<noteq> id_col r) rows = remove1 r rows"
proof (induction rows)
  case Nil
  then show ?case by simp
next
  case (Cons x xs)
  show ?case
  proof (cases "x = r")
    case True
    have "id_col r \<notin> id_col ` set xs"
      using Cons.prems(1) True by simp
    then have "\<forall>y\<in>set xs. id_col y \<noteq> id_col r"
      by (metis imageI)
    then have "filter (\<lambda>y. id_col y \<noteq> id_col r) xs = xs"
      by (simp add: filter_id_conv)
    with True show ?thesis by simp
  next
    case False
    with Cons.prems have mem: "r \<in> set xs" by simp
    have "id_col x \<notin> id_col ` set xs"
      using Cons.prems(1) by simp
    then have "id_col x \<noteq> id_col r"
      using mem by (metis imageI)
    with Cons.IH Cons.prems(1) mem False show ?thesis by simp
  qed
qed

lemma next_rowid_delete:
  "sqlite_sequence db < next_rowid (db\<lparr>mahasiswa := rows\<rparr>)"
  using next_rowid_gt_seq [of "db\<lparr>mahasiswa := rows\<rparr>"] by simp

text \<open>
  C6 (as amended).  Deleting an id that no stored row carries is not reported as a failure:
  the statement deletes nothing, the handler reloads the list as after any deletion, and the
  database is unchanged.  In every case the deletion keeps exactly the rows with another id,
  in their order, so the id is gone afterwards; where ids are unique this is the table
  without the one row that carried the id.  Nothing else changes: the counter of
  \<open>AUTOINCREMENT\<close> and the settings stay as they were, and an id that the counter has
  reached is below every id given out later, so the deleted id does not come back.
  Cancelling the dialog changes nothing.
\<close>

theorem handleDeleteStudent_delete:
  "(studentId \<notin> set (map id_col (mahasiswa db))
      \<longrightarrow> handleDeleteStudent studentId Hapus db = (Reloaded, db))
   \<and> fst (handleDeleteStudent studentId Hapus db) = Reloaded
   \<and> mahasiswa (snd (handleDeleteStudent studentId Hapus db))
       = filter (\<lambda>r. id_col r \<noteq> studentId) (mahasiswa db)
   \<and> studentId \<notin> set (map id_col (mahasiswa (snd (handleDeleteStudent studentId Hapus db))))
   \<and> (distinct (map id_col (mahasiswa db)) \<and> r \<in> set (mahasiswa db) \<and> id_col r = studentId
      \<longrightarrow> mahasiswa (snd (handleDeleteStudent studentId Hapus db)) = remove1 r (mahasiswa db))
   \<and> sqlite_sequence (snd (handleDeleteStudent studentId Hapus db)) = sqlite_sequence db
   \<and> settings (snd (handleDeleteStudent studentId Hapus db)) = settings db
   \<and> (studentId \<le> sqlite_sequence db
      \<longrightarrow> studentId < next_rowid (snd (handleDeleteStudent studentId Hapus db)))
   \<and> handleDeleteStudent studentId Batal db = (Cancelled, db)"
proof -
  let ?db' = "db\<lparr>mahasiswa := filter (\<lambda>r. id_col r \<noteq> studentId) (mahasiswa db)\<rparr>"
  have res: "handleDeleteStudent studentId Hapus db = (Reloaded, ?db')"
    by (simp add: handleDeleteStudent_def delete_mahasiswa_def)
  have absent: "studentId \<notin> set (map id_col (mahasiswa db)) \<longrightarrow> ?db' = db"
  proof
    assume "studentId \<notin> set (map id_col (mahasiswa db))"
    then have "\<forall>r\<in>set (mahasiswa db). id_col r \<noteq> studentId" by auto
    then have "filter (\<lambda>r. id_col r \<noteq> studentId) (mahasiswa db) = mahasiswa db"
      by (simp add: filter_id_conv)
    then show "?db' = db" by simp
  qed
  have one: "distinct (map id_col (mahasiswa db)) \<and> r \<in> set (mahasiswa db) \<and> id_col r = studentId
      \<longrightarrow> mahasiswa ?db' = remove1 r (mahasiswa db)"
    using filter_id_remove1 [of "mahasiswa db" r] by auto
  have fresh: "studentId \<le> sqlite_sequence db \<longrightarrow> studentId < next_rowid ?db'"
    using next_rowid_delete [of db "filter (\<lambda>r. id_col r \<noteq> studentId) (mahasiswa db)"]
    by simp
  have cancel: "handleDeleteStudent studentId Batal db = (Cancelled, db)"
    by (simp add: handleDeleteStudent_def)
  have gone: "studentId \<notin> set (map id_col (mahasiswa ?db'))"
    by auto
  show ?thesis
    unfolding res using absent one fresh cancel gone by simp
qed

text \<open>
  The theorem at a table of two rows: deleting the absent id 7 returns the same database,
  deleting id 1 leaves the row with id 2, and the next id is above 1.
\<close>

theorem handleDeleteStudent_delete_witness:
  "handleDeleteStudent 7 Hapus
     \<lparr>mahasiswa = [\<lparr>id_col = 2, nama = ''Budi'', nim = ''002'', matkul = ''CS'',
                     tb1 = Num 50, tb2 = Num 50, uas = Num 50\<rparr>,
                    \<lparr>id_col = 1, nama = ''Ani'', nim = ''001'', matkul = ''CS'',
                     tb1 = Num 80, tb2 = Num 90, uas = Num 70\<rparr>],
      sqlite_sequence = 2, settings = None\<rparr>
   = (Reloaded,
      \<lparr>mahasiswa = [\<lparr>id_col = 2, nama = ''Budi'', nim = ''002'', matkul = ''CS'',
                     tb1 = Num 50, tb2 = Num 50, uas = Num 50\<rparr>,
                    \<lparr>id_col = 1, nama = ''Ani'', nim = ''001'', matkul = ''CS'',
                     tb1 = Num 80, tb2 = Num 90, uas = Num 70\<rparr>],
      sqlite_sequence = 2, settings = None\<rparr>)
   \<and> mahasiswa (snd (handleDeleteStudent 1 Hapus
     \<lparr>mahasiswa = [\<lparr>id_col = 2, nama = ''Budi'', nim = ''002'', matkul = ''CS'',
                     tb1 = Num 50, tb2 = Num 50, uas = Num 50\<rparr>,
                    \<lparr>id_col = 1, nama = ''Ani'', nim = ''001'', matkul = ''CS'',
                     tb1 = Num 80, tb2 = Num 90, uas = Num 70\<rparr>],
      sqlite_sequence = 2, settings = None\<rparr>))
     = [\<lparr>id_col = 2, nama = ''Budi'', nim = ''002'', matkul = ''CS'',
                     tb1 = Num 50, tb2 = Num 50, uas = Num 50\<rparr>]
   \<and> 1 < next_rowid (snd (handleDeleteStudent 1 Hapus
     \<lparr>mahasiswa = [\<lparr>id_col = 2, nama = ''Budi'', nim = ''002'', matkul = ''CS'',
                     tb1 = Num 50, tb2 = Num 50, uas = Num 50\<rparr>,
                    \<lparr>id_col = 1, nama = ''Ani'', nim = ''001'', matkul = ''CS'',
                     tb1 = Num 80, tb2 = Num 90, uas = Num 70\<rparr>],
      sqlite_sequence = 2, settings = None\<rparr>))"
  using handleDeleteStudent_delete [of 7
     "\<lparr>mahasiswa = [\<lparr>id_col = 2, nama = ''Budi'', nim = ''002'', matkul = ''CS'',
                     tb1 = Num 50, tb2 = Num 50, uas = Num 50\<rparr>,
                    \<lparr>id_col = 1, nama = ''Ani'', nim = ''001'', matkul = ''CS'',
                     tb1 = Num 80, tb2 = Num 90, uas = Num 70\<rparr>],
      sqlite_sequence = 2, settings = None\<rparr>"
     "\<lparr>id_col = 1, nama = ''Ani'', nim = ''001'', matkul = ''CS'',
                     tb1 = Num 80, tb2 = Num 90, uas = Num 70\<rparr>"]
   handleDeleteStudent_delete [of 1
     "\<lparr>mahasiswa = [\<lparr>id_col = 2, nama = ''Budi'', nim = ''002'', matkul = ''CS'',
                     tb1 = Num 50, tb2 = Num 50, uas = Num 50\<rparr>,
                    \<lparr>id_col = 1, nama = ''Ani'', nim = ''001'', matkul = ''CS'',
                     tb1 = Num 80, tb2 = Num 90, uas = Num 70\<rparr>],
      sqlite_sequence = 2, settings = None\<rparr>"
     "\<lparr>id_col = 1, nama = ''Ani'', nim = ''001'', matkul = ''CS'',
                     tb1 = Num 80, tb2 = Num 90, uas = Num 70\<rparr>"]
  by simp

text \<open>
  C6 as stated fails: deleting the absent id 7 ends like a successful deletion, with the
  list reloaded and no failure reported.
\<close>

theorem handleDeleteStudent_counterexample:
  "7 \<notin> set (map id_col (mahasiswa
     \<lparr>mahasiswa = [\<lparr>id_col = 1, nama = ''Ani'', nim = ''001'', matkul = ''CS'',
                     tb1 = Num 80, tb2 = Num 90, uas = Num 70\<rparr>],
      sqlite_sequence = 1, settings = None\<rparr>))
   \<and> fst (handleDeleteStudent 7 Hapus
     \<lparr>mahasiswa = [\<lparr>id_col = 1, nama = ''Ani'', nim = ''001'', matkul = ''CS'',
                     tb1 = Num 80, tb2 = Num 90, uas = Num 70\<rparr>],
      sqlite_sequence = 1, settings = None\<rparr>) = Reloaded
   \<and> fst (handleDeleteStudent 7 Hapus
     \<lparr>mahasiswa = [\<lparr>id_col = 1, nama = ''Ani'', nim = ''001'', matkul = ''CS'',
                     tb1 = Num 80, tb2 = Num 90, uas = Num 70\<rparr>],
      sqlite_sequence = 1, settings = None\<rparr>) \<noteq> ConsoleWarn ''Failed to delete student''"
  by (simp add: handleDeleteStudent_def delete_mahasiswa_def)

lemma handleSave_valid:
  assumes "form_valid name_txt nim_txt course_txt tb1_txt tb2_txt uas_txt"
  shows "handleSave student name_txt nim_txt course_txt tb1_txt tb2_txt uas_txt db =
     (if nim_txt \<noteq> nim student \<and> nim_txt \<in> set (map nim (mahasiswa db))
      then (DuplicateKey, db)
      else handleSaveEditedStudent
             (edited student name_txt nim_txt course_txt tb1_txt tb2_txt uas_txt) db)"
  using assms
  by (simp add: handleSave_def form_valid_def in_range_iff select_by_nim_empty Let_def
      DuplicateKey_def edited_def)

lemma handleSave_invalid:
  assumes "\<not> form_valid name_txt nim_txt course_txt tb1_txt tb2_txt uas_txt"
  shows "handleSave student name_txt nim_txt course_txt tb1_txt tb2_txt uas_txt db =
     (if name_txt = [] \<or> nim_txt = [] \<or> course_txt = []
         \<or> tb1_txt = [] \<or> tb2_txt = [] \<or> uas_txt = []
      then (Alert ''Peringatan'' ''Semua field harus diisi'', db)
      else (Alert ''Peringatan'' ''Nilai harus angka antara 0 dan 100'', db))"
  using assms
  by (auto simp add: handleSave_def form_valid_def in_range_iff Let_def)

lemma handleSaveEditedStudent_cases:
  "handleSaveEditedStudent s db =
     (if id_col s \<in> set (map id_col (mahasiswa db))
         \<and> nim s \<in> set (map nim (filter (\<lambda>r. id_col r \<noteq> id_col s) (mahasiswa db)))
      then (ConsoleWarn ''Failed to update student'', db)
      else (Reloaded,
            db\<lparr>mahasiswa := map (\<lambda>r. if id_col r = id_col s then s else r) (mahasiswa db)\<rparr>))"
  by (simp add: handleSaveEditedStudent_def update_mahasiswa_def)

lemma same_id_same_row:
  assumes "distinct (map id_col rows)" "r \<in> set rows" "s \<in> set rows" "id_col r = id_col s"
  shows "r = s"
  using assms by (meson distinct_map inj_onD)

lemma other_row_iff:
  assumes "student \<in> set rows" "distinct (map id_col rows)" "n \<noteq> nim student"
  shows "n \<in> set (map nim rows) \<longleftrightarrow> (\<exists>r\<in>set rows. id_col r \<noteq> id_col student \<and> nim r = n)"
proof
  assume "n \<in> set (map nim rows)"
  then obtain r where r: "r \<in> set rows" "nim r = n" by auto
  have "id_col r \<noteq> id_col student"
  proof
    assume "id_col r = id_col student"
    then have "r = student"
      using same_id_same_row [OF assms(2) r(1) assms(1)] by simp
    with r(2) assms(3) show False by simp
  qed
  with r show "\<exists>r\<in>set rows. id_col r \<noteq> id_col student \<and> nim r = n" by blast
next
  assume "\<exists>r\<in>set rows. id_col r \<noteq> id_col student \<and> nim r = n"
  then show "n \<in> set (map nim rows)" by auto
qed

lemma same_nim_same_row:
  assumes "distinct (map nim rows)" "r \<in> set rows" "s \<in> set rows" "nim r = nim s"
  shows "r = s"
  using assms by (meson distinct_map inj_onD)

lemma update_no_conflict:
  assumes "student \<in> set rows" "distinct (map nim rows)"
    and "\<not> (n \<noteq> nim student \<and> n \<in> set (map nim rows))"
  shows "n \<notin> set (map nim (filter (\<lambda>r. id_col r \<noteq> id_col student) rows))"
proof
  assume "n \<in> set (map nim (filter (\<lambda>r. id_col r \<noteq> id_col student) rows))"
  then obtain r where r: "r \<in> set rows" "id_col r \<noteq> id_col student" "nim r = n" by auto
  then have "n \<in> set (map nim rows)" by auto
  with assms(3) have "n = nim student" by blast
  with r(3) have "r = student"
    using same_nim_same_row [OF assms(2) r(1) assms(1)] by simp
  with r(2) show False by simp
qed

lemma map_replace_ids:
  "id_col s = k \<Longrightarrow> map id_col (map (\<lambda>r. if id_col r = k then s else r) rows) = map id_col rows"
  by (induction rows) auto

lemma map_replace_mem:
  "x \<in> set rows \<Longrightarrow> id_col x = k \<Longrightarrow> s \<in> set (map (\<lambda>r. if id_col r = k then s else r) rows)"
  by (induction rows) auto

text \<open>
  C7 (as amended).  Let \<open>student\<close>, the record the modal was opened with, be a stored row,
  and let the ids of the table be unique.  For inputs that pass validation, \<open>handleSave\<close>
  reports \<open>DuplicateKey\<close> exactly when the submitted NIM differs from the NIM of the record
  and is the NIM of another stored row.  A submission that leaves the NIM unchanged never
  reports \<open>DuplicateKey\<close>.  On success (the list is reloaded) the row with the id of the
  record holds the submitted name, NIM and course and the three parsed scores under the
  same id, and every other row, the order of the rows and their ids are as before; on any
  other outcome the database is unchanged.  The counter and the settings never change.
  Where the NIMs of the table are unique as well, a valid submission without such a
  collision succeeds.
\<close>

theorem handleSave_update:
  assumes "student \<in> set (mahasiswa db)" and "distinct (map id_col (mahasiswa db))"
  shows
  "(form_valid name_txt nim_txt course_txt tb1_txt tb2_txt uas_txt \<longrightarrow>
      (fst (handleSave student name_txt nim_txt course_txt tb1_txt tb2_txt uas_txt db) = DuplicateKey
       \<longleftrightarrow> nim_txt \<noteq> nim student
            \<and> (\<exists>r\<in>set (mahasiswa db). id_col r \<noteq> id_col student \<and> nim r = nim_txt)))
   \<and> (nim_txt = nim student \<longrightarrow>
        fst (handleSave student name_txt nim_txt course_txt tb1_txt tb2_txt uas_txt db)
          \<noteq> DuplicateKey)
   \<and> (fst (handleSave student name_txt nim_txt course_txt tb1_txt tb2_txt uas_txt db) = Reloaded
      \<longrightarrow> mahasiswa (snd (handleSave student name_txt nim_txt course_txt tb1_txt tb2_txt uas_txt db))
            = map (\<lambda>r. if id_col r = id_col student
                        then edited student name_txt nim_txt course_txt tb1_txt tb2_txt uas_txt
                        else r) (mahasiswa db)
          \<and> edited student name_txt nim_txt course_txt tb1_txt tb2_txt uas_txt
              \<in> set (mahasiswa (snd (handleSave student name_txt nim_txt course_txt
                                          tb1_txt tb2_txt uas_txt db)))
          \<and> id_col (edited student name_txt nim_txt course_txt tb1_txt tb2_txt uas_txt)
              = id_col student
          \<and> map id_col (mahasiswa (snd (handleSave student name_txt nim_txt course_txt
                                             tb1_txt tb2_txt uas_txt db)))
              = map id_col (mahasiswa db))
   \<and> (fst (handleSave student name_txt nim_txt course_txt tb1_txt tb2_txt uas_txt db) \<noteq> Reloaded
      \<longrightarrow> snd (handleSave student name_txt nim_txt course_txt tb1_txt tb2_txt uas_txt db) = db)
   \<and> sqlite_sequence (snd (handleSave student name_txt nim_txt course_txt tb1_txt tb2_txt uas_txt db))
        = sqlite_sequence db
   \<and> settings (snd (handleSave student name_txt nim_txt course_txt tb1_txt tb2_txt uas_txt db))
        = settings db
   \<and> (distinct (map nim (mahasiswa db))
        \<and> form_valid name_txt nim_txt course_txt tb1_txt tb2_txt uas_txt
        \<and> \<not> (nim_txt \<noteq> nim student
              \<and> (\<exists>r\<in>set (mahasiswa db). id_col r \<noteq> id_col student \<and> nim r = nim_txt))
      \<longrightarrow> fst (handleSave student name_txt nim_txt course_txt tb1_txt tb2_txt uas_txt db)
            = Reloaded)"
proof -
  let ?e = "edited student name_txt nim_txt course_txt tb1_txt tb2_txt uas_txt"
  let ?res = "handleSave student name_txt nim_txt course_txt tb1_txt tb2_txt uas_txt db"
  let ?rows' = "map (\<lambda>r. if id_col r = id_col student then ?e else r) (mahasiswa db)"
  have eid: "id_col ?e = id_col student" and enim: "nim ?e = nim_txt"
    by (simp_all add: edited_def)
  have upd: "handleSaveEditedStudent ?e db = (ConsoleWarn ''Failed to update student'', db)
      \<or> handleSaveEditedStudent ?e db = (Reloaded, db\<lparr>mahasiswa := ?rows'\<rparr>)"
    by (simp add: handleSaveEditedStudent_cases eid)
  have other: "nim_txt \<noteq> nim student \<Longrightarrow>
      nim_txt \<in> set (map nim (mahasiswa db))
        \<longleftrightarrow> (\<exists>r\<in>set (mahasiswa db). id_col r \<noteq> id_col student \<and> nim r = nim_txt)"
    by (rule other_row_iff [OF assms])
  have cases: "?res = (Alert ''Peringatan'' ''Semua field harus diisi'', db)
      \<or> ?res = (Alert ''Peringatan'' ''Nilai harus angka antara 0 dan 100'', db)
      \<or> ?res = (DuplicateKey, db) \<and> nim_txt \<noteq> nim student
      \<or> ?res = (ConsoleWarn ''Failed to update student'', db)
      \<or> ?res = (Reloaded, db\<lparr>mahasiswa := ?rows'\<rparr>)"
  proof (cases "form_valid name_txt nim_txt course_txt tb1_txt tb2_txt uas_txt")
    case True
    show ?thesis using upd by (auto simp: handleSave_valid [OF True])
  next
    case False
    show ?thesis by (simp add: handleSave_invalid [OF False])
  qed
  have c1: "form_valid name_txt nim_txt course_txt tb1_txt tb2_txt uas_txt \<longrightarrow>
      (fst ?res = DuplicateKey
       \<longleftrightarrow> nim_txt \<noteq> nim student
            \<and> (\<exists>r\<in>set (mahasiswa db). id_col r \<noteq> id_col student \<and> nim r = nim_txt))"
  proof
    assume v: "form_valid name_txt nim_txt course_txt tb1_txt tb2_txt uas_txt"
    show "fst ?res = DuplicateKey
       \<longleftrightarrow> nim_txt \<noteq> nim student
            \<and> (\<exists>r\<in>set (mahasiswa db). id_col r \<noteq> id_col student \<and> nim r = nim_txt)"
    proof (cases "nim_txt \<noteq> nim student \<and> nim_txt \<in> set (map nim (mahasiswa db))")
      case True
      then show ?thesis using other by (simp add: handleSave_valid [OF v])
    next
      case False
      have "fst ?res \<noteq> DuplicateKey"
        using upd False by (auto simp: handleSave_valid [OF v] DuplicateKey_def)
      then show ?thesis using False other by blast
    qed
  qed
  have c2: "nim_txt = nim student \<longrightarrow> fst ?res \<noteq> DuplicateKey"
    using cases by (auto simp: DuplicateKey_def)
  have mem: "?e \<in> set ?rows'"
    by (rule map_replace_mem [OF assms(1) refl])
  have ids: "map id_col ?rows' = map id_col (mahasiswa db)"
    by (rule map_replace_ids [OF eid])
  have c3: "fst ?res = Reloaded \<longrightarrow>
      mahasiswa (snd ?res) = ?rows' \<and> ?e \<in> set (mahasiswa (snd ?res))
      \<and> id_col ?e = id_col student \<and> map id_col (mahasiswa (snd ?res)) = map id_col (mahasiswa db)"
    using cases mem ids eid by (auto simp: DuplicateKey_def)
  have c4: "fst ?res \<noteq> Reloaded \<longrightarrow> snd ?res = db"
    using cases by auto
  have c5: "distinct (map nim (mahasiswa db))
        \<and> form_valid name_txt nim_txt course_txt tb1_txt tb2_txt uas_txt
        \<and> \<not> (nim_txt \<noteq> nim student
              \<and> (\<exists>r\<in>set (mahasiswa db). id_col r \<noteq> id_col student \<and> nim r = nim_txt))
      \<longrightarrow> fst ?res = Reloaded"
  proof
    assume h: "distinct (map nim (mahasiswa db))
        \<and> form_valid name_txt nim_txt course_txt tb1_txt tb2_txt uas_txt
        \<and> \<not> (nim_txt \<noteq> nim student
              \<and> (\<exists>r\<in>set (mahasiswa db). id_col r \<noteq> id_col student \<and> nim r = nim_txt))"
    then have v: "form_valid name_txt nim_txt course_txt tb1_txt tb2_txt uas_txt" by simp
    from h other have no: "\<not> (nim_txt \<noteq> nim student \<and> nim_txt \<in> set (map nim (mahasiswa db)))"
      by blast
    have "nim_txt \<notin> set (map nim (filter (\<lambda>r. id_col r \<noteq> id_col student) (mahasiswa db)))"
      using update_no_conflict [OF assms(1) _ no] h by blast
    then have "handleSaveEditedStudent ?e db = (Reloaded, db\<lparr>mahasiswa := ?rows'\<rparr>)"
      by (simp add: handleSaveEditedStudent_cases eid enim)
    moreover have "?res = handleSaveEditedStudent ?e db"
      using no by (simp only: handleSave_valid [OF v] if_False)
    ultimately show "fst ?res = Reloaded"
      by simp
  qed
  have c6: "sqlite_sequence (snd ?res) = sqlite_sequence db" "settings (snd ?res) = settings db"
    using cases by auto
  from c1 c2 c3 c4 c5 c6 show ?thesis by blast
qed

text \<open>
  The theorem at a table of two rows, editing the row with id 1: the NIM \<open>002\<close> of the
  other row is refused, an edit that keeps the NIM \<open>001\<close> overwrites name, course and
  scores.
\<close>

theorem handleSave_update_witness:
  "fst (handleSave
     \<lparr>id_col = 1, nama = ''Ani'', nim = ''001'', matkul = ''CS'',
        tb1 = Num 80, tb2 = Num 90, uas = Num 70\<rparr>
     ''Ani'' ''002'' ''CS'' ''80'' ''90'' ''70''
     \<lparr>mahasiswa =
       [\<lparr>id_col = 2, nama = ''Budi'', nim = ''002'', matkul = ''CS'',
        tb1 = Num 50, tb2 = Num 50, uas = Num 50\<rparr>,
        \<lparr>id_col = 1, nama = ''Ani'', nim = ''001'', matkul = ''CS'',
        tb1 = Num 80, tb2 = Num 90, uas = Num 70\<rparr>],
      sqlite_sequence = 2, settings = None\<rparr>) = DuplicateKey
   \<and> handleSave
     \<lparr>id_col = 1, nama = ''Ani'', nim = ''001'', matkul = ''CS'',
        tb1 = Num 80, tb2 = Num 90, uas = Num 70\<rparr>
     ''Ani B'' ''001'' ''Math'' ''10'' ''20'' ''30''
     \<lparr>mahasiswa =
       [\<lparr>id_col = 2, nama = ''Budi'', nim = ''002'', matkul = ''CS'',
        tb1 = Num 50, tb2 = Num 50, uas = Num 50\<rparr>,
        \<lparr>id_col = 1, nama = ''Ani'', nim = ''001'', matkul = ''CS'',
        tb1 = Num 80, tb2 = Num 90, uas = Num 70\<rparr>],
      sqlite_sequence = 2, settings = None\<rparr>
   = (Reloaded,
      \<lparr>mahasiswa =
       [\<lparr>id_col = 2, nama = ''Budi'', nim = ''002'', matkul = ''CS'',
        tb1 = Num 50, tb2 = Num 50, uas = Num 50\<rparr>,
        \<lparr>id_col = 1, nama = ''Ani B'', nim = ''001'', matkul = ''Math'',
        tb1 = Num 10, tb2 = Num 20, uas = Num 30\<rparr>],
      sqlite_sequence = 2, settings = None\<rparr>)"
proof -
  have mem: "\<lparr>id_col = 1, nama = ''Ani'', nim = ''001'', matkul = ''CS'',
        tb1 = Num 80, tb2 = Num 90, uas = Num 70\<rparr> \<in> set (mahasiswa \<lparr>mahasiswa =
       [\<lparr>id_col = 2, nama = ''Budi'', nim = ''002'', matkul = ''CS'',
        tb1 = Num 50, tb2 = Num 50, uas = Num 50\<rparr>,
        \<lparr>id_col = 1, nama = ''Ani'', nim = ''001'', matkul = ''CS'',
        tb1 = Num 80, tb2 = Num 90, uas = Num 70\<rparr>],
      sqlite_sequence = 2, settings = None\<rparr>)"
    by simp
  have ids: "distinct (map id_col (mahasiswa \<lparr>mahasiswa =
       [\<lparr>id_col = 2, nama = ''Budi'', nim = ''002'', matkul = ''CS'',
        tb1 = Num 50, tb2 = Num 50, uas = Num 50\<rparr>,
        \<lparr>id_col = 1, nama = ''Ani'', nim = ''001'', matkul = ''CS'',
        tb1 = Num 80, tb2 = Num 90, uas = Num 70\<rparr>],
      sqlite_sequence = 2, settings = None\<rparr>))"
    by simp
  have v1: "form_valid ''Ani'' ''002'' ''CS'' ''80'' ''90'' ''70''"
    by (simp add: eval_defs)
  have v2: "form_valid ''Ani B'' ''001'' ''Math'' ''10'' ''20'' ''30''"
    by (simp add: eval_defs)
  have e2: "edited \<lparr>id_col = 1, nama = ''Ani'', nim = ''001'', matkul = ''CS'',
        tb1 = Num 80, tb2 = Num 90, uas = Num 70\<rparr> ''Ani B'' ''001'' ''Math'' ''10'' ''20'' ''30''
      = \<lparr>id_col = 1, nama = ''Ani B'', nim = ''001'', matkul = ''Math'',
        tb1 = Num 10, tb2 = Num 20, uas = Num 30\<rparr>"
    by (simp add: edited_def eval_defs)
  show ?thesis
    using handleSave_update [OF mem ids, of "''Ani''" "''002''" "''CS''" "''80''" "''90''" "''70''"]
      handleSave_update [OF mem ids, of "''Ani B''" "''001''" "''Math''" "''10''" "''20''" "''30''"]
      v1 v2
    by (simp add: e2 prod_eq_iff)
qed

text \<open>
  C7 as stated fails: with the name cleared, a submission whose NIM \<open>002\<close> differs from
  that of the record and belongs to another row is refused by the presence check, which
  runs first, and not with \<open>DuplicateKey\<close>.
\<close>

theorem handleSave_counterexample:
  "''002'' \<noteq> nim \<lparr>id_col = 1, nama = ''Ani'', nim = ''001'', matkul = ''CS'',
        tb1 = Num 80, tb2 = Num 90, uas = Num 70\<rparr>
   \<and> nim (mahasiswa \<lparr>mahasiswa =
       [\<lparr>id_col = 2, nama = ''Budi'', nim = ''002'', matkul = ''CS'',
        tb1 = Num 50, tb2 = Num 50, uas = Num 50\<rparr>,
        \<lparr>id_col = 1, nama = ''Ani'', nim = ''001'', matkul = ''CS'',
        tb1 = Num 80, tb2 = Num 90, uas = Num 70\<rparr>],
      sqlite_sequence = 2, settings = None\<rparr> ! 0) = ''002''
   \<and> id_col (mahasiswa \<lparr>mahasiswa =
       [\<lparr>id_col = 2, nama = ''Budi'', nim = ''002'', matkul = ''CS'',
        tb1 = Num 50, tb2 = Num 50, uas = Num 50\<rparr>,
        \<lparr>id_col = 1, nama = ''Ani'', nim = ''001'', matkul = ''CS'',
        tb1 = Num 80, tb2 = Num 90, uas = Num 70\<rparr>],
      sqlite_sequence = 2, settings = None\<rparr> ! 0) \<noteq> id_col \<lparr>id_col = 1, nama = ''Ani'', nim = ''001'', matkul = ''CS'',
        tb1 = Num 80, tb2 = Num 90, uas = Num 70\<rparr>
   \<and> fst (handleSave
     \<lparr>id_col = 1, nama = ''Ani'', nim = ''001'', matkul = ''CS'',
        tb1 = Num 80, tb2 = Num 90, uas = Num 70\<rparr>
     [] ''002'' ''CS'' ''80'' ''90'' ''70''
     \<lparr>mahasiswa =
       [\<lparr>id_col = 2, nama = ''Budi'', nim = ''002'', matkul = ''CS'',
        tb1 = Num 50, tb2 = Num 50, uas = Num 50\<rparr>,
        \<lparr>id_col = 1, nama = ''Ani'', nim = ''001'', matkul = ''CS'',
        tb1 = Num 80, tb2 = Num 90, uas = Num 70\<rparr>],
      sqlite_sequence = 2, settings = None\<rparr>) = Alert ''Peringatan'' ''Semua field harus diisi''
   \<and> fst (handleSave
     \<lparr>id_col = 1, nama = ''Ani'', nim = ''001'', matkul = ''CS'',
        tb1 = Num 80, tb2 = Num 90, uas = Num 70\<rparr>
     [] ''002'' ''CS'' ''80'' ''90'' ''70''
     \<lparr>mahasiswa =
       [\<lparr>id_col = 2, nama = ''Budi'', nim = ''002'', matkul = ''CS'',
        tb1 = Num 50, tb2 = Num 50, uas = Num 50\<rparr>,
        \<lparr>id_col = 1, nama = ''Ani'', nim = ''001'', matkul = ''CS'',
        tb1 = Num 80, tb2 = Num 90, uas = Num 70\<rparr>],
      sqlite_sequence = 2, settings = None\<rparr>) \<noteq> DuplicateKey"
  by (simp add: handleSave_def DuplicateKey_def)

section \<open>Properties of the students screen\<close>

lemma includes_str_sublist: "includes_str s q \<longleftrightarrow> sublist q s"
  by (induction s) (simp_all add: sublist_Cons_right)

lemma includes_str_ci:
  "includes_str (toLowerCase field) (toLowerCase q) \<longleftrightarrow> ci_substring toLowerCase q field"
  by (simp add: includes_str_sublist ci_substring_def)

lemma matchesSearch_iff:
  assumes "\<And>t. toLowerCase t = [] \<longleftrightarrow> t = []"
  shows "matchesSearch toLowerCase (toLowerCase (trim searchQuery)) s \<longleftrightarrow>
     trim searchQuery = [] \<or> ci_substring toLowerCase (trim searchQuery) (nama s)
     \<or> ci_substring toLowerCase (trim searchQuery) (nim s)
     \<or> ci_substring toLowerCase (trim searchQuery) (matkul s)"
  by (simp add: matchesSearch_def includes_str_ci assms)

lemma asciiLowerCase_empty: "asciiLowerCase t = [] \<longleftrightarrow> t = []"
  by (simp add: asciiLowerCase_def)

lemma sublist_map_iff:
  "sublist (map f q) (map f s) \<longleftrightarrow> (\<exists>u. sublist u s \<and> map f u = map f q)"
proof
  assume "sublist (map f q) (map f s)"
  then obtain u where "sublist u s" "map f q = map f u"
    using sublist_map_rightE by blast
  then show "\<exists>u. sublist u s \<and> map f u = map f q" by auto
next
  assume "\<exists>u. sublist u s \<and> map f u = map f q"
  then obtain u where u: "sublist u s" "map f u = map f q" by blast
  from u(1) obtain ps ss where "s = ps @ u @ ss" by (auto simp: sublist_def)
  then have "map f s = map f ps @ map f q @ map f ss" using u(2) by simp
  then show "sublist (map f q) (map f s)" unfolding sublist_def by blast
qed

text \<open>
  With the lower case of the ASCII letters, \<open>q\<close> is a case-insensitive substring of \<open>field\<close>
  exactly when some contiguous part of \<open>field\<close> differs from \<open>q\<close> in the case of its letters
  only.
\<close>

lemma ci_substring_ascii:
  "ci_substring asciiLowerCase q field \<longleftrightarrow>
     (\<exists>u. sublist u field \<and> asciiLowerCase u = asciiLowerCase q)"
  by (simp add: ci_substring_def asciiLowerCase_def sublist_map_iff)

text \<open>
  C8.  \<open>toLowerCase\<close> stands for the conversion to lower case of the platform, of which the
  proof uses only that it gives the empty string on the empty string and on no other.  For
  every list of records and every search text, grade filter and course filter, a record is
  visible exactly when it is in the list and (the trimmed search text is empty or is a
  case-insensitive substring of its name, its NIM or its course) and (the grade filter is
  \<open>Semua Grade\<close> or is the grade of its final score) and (the course filter is
  \<open>Semua Program Studi\<close> or is its course).  The visible list is the list filtered by the
  three predicates one after the other, in any of the six orders.
\<close>

theorem filteredStudents_visible:
  assumes "\<And>t. toLowerCase t = [] \<longleftrightarrow> t = []"
  shows "(s \<in> set (filteredStudents toLowerCase students searchQuery gradeFilter courseFilter) \<longleftrightarrow>
      s \<in> set students
      \<and> (trim searchQuery = [] \<or> ci_substring toLowerCase (trim searchQuery) (nama s)
         \<or> ci_substring toLowerCase (trim searchQuery) (nim s)
         \<or> ci_substring toLowerCase (trim searchQuery) (matkul s))
      \<and> (gradeFilter = ''Semua Grade''
         \<or> gradeFilter = scoreToGrade (calculateFinalScore (tb1 s) (tb2 s) (uas s)))
      \<and> (courseFilter = ''Semua Program Studi'' \<or> courseFilter = matkul s))
   \<and> filteredStudents toLowerCase students searchQuery gradeFilter courseFilter
       = filter (matchesCourse courseFilter)
           (filter (matchesGrade gradeFilter)
             (filter (matchesSearch toLowerCase (toLowerCase (trim searchQuery))) students))
   \<and> filteredStudents toLowerCase students searchQuery gradeFilter courseFilter
       = filter (matchesSearch toLowerCase (toLowerCase (trim searchQuery)))
           (filter (matchesGrade gradeFilter)
             (filter (matchesCourse courseFilter) students))
   \<and> filteredStudents toLowerCase students searchQuery gradeFilter courseFilter
       = filter (matchesGrade gradeFilter)
           (filter (matchesCourse courseFilter)
             (filter (matchesSearch toLowerCase (toLowerCase (trim searchQuery))) students))
   \<and> filteredStudents toLowerCase students searchQuery gradeFilter courseFilter
       = filter (matchesGrade gradeFilter)
           (filter (matchesSearch toLowerCase (toLowerCase (trim searchQuery)))
             (filter (matchesCourse courseFilter) students))
   \<and> filteredStudents toLowerCase students searchQuery gradeFilter courseFilter
       = filter (matchesCourse courseFilter)
           (filter (matchesSearch toLowerCase (toLowerCase (trim searchQuery)))
             (filter (matchesGrade gradeFilter) students))
   \<and> filteredStudents toLowerCase students searchQuery gradeFilter courseFilter
       = filter (matchesSearch toLowerCase (toLowerCase (trim searchQuery)))
           (filter (matchesCourse courseFilter)
             (filter (matchesGrade gradeFilter) students))"
proof -
  have vis: "s \<in> set (filteredStudents toLowerCase students searchQuery gradeFilter courseFilter) \<longleftrightarrow>
      s \<in> set students
      \<and> (trim searchQuery = [] \<or> ci_substring toLowerCase (trim searchQuery) (nama s)
         \<or> ci_substring toLowerCase (trim searchQuery) (nim s)
         \<or> ci_substring toLowerCase (trim searchQuery) (matkul s))
      \<and> (gradeFilter = ''Semua Grade''
         \<or> gradeFilter = scoreToGrade (calculateFinalScore (tb1 s) (tb2 s) (uas s)))
      \<and> (courseFilter = ''Semua Program Studi'' \<or> courseFilter = matkul s)"
    by (simp add: filteredStudents_def matchesSearch_iff [OF assms])
       (simp add: matchesGrade_def matchesCourse_def)
  have ord: "filteredStudents toLowerCase students searchQuery gradeFilter courseFilter
       = filter (matchesCourse courseFilter)
           (filter (matchesGrade gradeFilter)
             (filter (matchesSearch toLowerCase (toLowerCase (trim searchQuery))) students))"
     "filteredStudents toLowerCase students searchQuery gradeFilter courseFilter
       = filter (matchesSearch toLowerCase (toLowerCase (trim searchQuery)))
           (filter (matchesGrade gradeFilter)
             (filter (matchesCourse courseFilter) students))"
     "filteredStudents toLowerCase students searchQuery gradeFilter courseFilter
       = filter (matchesGrade gradeFilter)
           (filter (matchesCourse courseFilter)
             (filter (matchesSearch toLowerCase (toLowerCase (trim searchQuery))) students))"
     "filteredStudents toLowerCase students searchQuery gradeFilter courseFilter
       = filter (matchesGrade gradeFilter)
           (filter (matchesSearch toLowerCase (toLowerCase (trim searchQuery)))
             (filter (matchesCourse courseFilter) students))"
     "filteredStudents toLowerCase students searchQuery gradeFilter courseFilter
       = filter (matchesCourse courseFilter)
           (filter (matchesSearch toLowerCase (toLowerCase (trim searchQuery)))
             (filter (matchesGrade gradeFilter) students))"
     "filteredStudents toLowerCase students searchQuery gradeFilter courseFilter
       = filter (matchesSearch toLowerCase (toLowerCase (trim searchQuery)))
           (filter (matchesCourse courseFilter)
             (filter (matchesGrade gradeFilter) students))"
    by (auto simp: filteredStudents_def intro: filter_cong)
  from vis ord show ?thesis by blast
qed

text \<open>
  The theorem with the lower case of the ASCII letters, at a list of three records and the
  search text \<open>cS\<close> between blanks, the first of them a no-break space.  Under the grade filter \<open>B+\<close> the record with
  the scores 80, 90 and 70 is visible.  The record with the scores 60, 92 and 26, whose
  final score falls just short of 56 in double arithmetic, is visible under the grade
  filter \<open>D\<close>.  The third record matches the search text in none of its fields.
\<close>

theorem filteredStudents_visible_witness:
  "filteredStudents asciiLowerCase
     [\<lparr>id_col = 3, nama = ''Citra'', nim = ''003'', matkul = ''CS'',
        tb1 = Num 60, tb2 = Num 92, uas = Num 26\<rparr>,
      \<lparr>id_col = 2, nama = ''Budi'', nim = ''002'', matkul = ''Math'',
        tb1 = Num 50, tb2 = Num 50, uas = Num 50\<rparr>,
      \<lparr>id_col = 1, nama = ''Ani'', nim = ''001'', matkul = ''CS'',
        tb1 = Num 80, tb2 = Num 90, uas = Num 70\<rparr>]
     [CHR 0xC2, CHR 0xA0, CHR '' '', CHR ''c'', CHR ''S'', CHR '' ''] ''B+'' ''Semua Program Studi''
   = [\<lparr>id_col = 1, nama = ''Ani'', nim = ''001'', matkul = ''CS'',
        tb1 = Num 80, tb2 = Num 90, uas = Num 70\<rparr>]
   \<and> filteredStudents asciiLowerCase
     [\<lparr>id_col = 3, nama = ''Citra'', nim = ''003'', matkul = ''CS'',
        tb1 = Num 60, tb2 = Num 92, uas = Num 26\<rparr>,
      \<lparr>id_col = 2, nama = ''Budi'', nim = ''002'', matkul = ''Math'',
        tb1 = Num 50, tb2 = Num 50, uas = Num 50\<rparr>,
      \<lparr>id_col = 1, nama = ''Ani'', nim = ''001'', matkul = ''CS'',
        tb1 = Num 80, tb2 = Num 90, uas = Num 70\<rparr>]
     [CHR 0xC2, CHR 0xA0, CHR '' '', CHR ''c'', CHR ''S'', CHR '' ''] ''D'' ''Semua Program Studi''
   = [\<lparr>id_col = 3, nama = ''Citra'', nim = ''003'', matkul = ''CS'',
        tb1 = Num 60, tb2 = Num 92, uas = Num 26\<rparr>]
   \<and> (trim [CHR 0xC2, CHR 0xA0, CHR '' '', CHR ''c'', CHR ''S'', CHR '' ''] = []
      \<or> ci_substring asciiLowerCase
           (trim [CHR 0xC2, CHR 0xA0, CHR '' '', CHR ''c'', CHR ''S'', CHR '' '']) ''Ani''
      \<or> ci_substring asciiLowerCase
           (trim [CHR 0xC2, CHR 0xA0, CHR '' '', CHR ''c'', CHR ''S'', CHR '' '']) ''001''
      \<or> ci_substring asciiLowerCase
           (trim [CHR 0xC2, CHR 0xA0, CHR '' '', CHR ''c'', CHR ''S'', CHR '' '']) ''CS'')
   \<and> ''D'' = scoreToGrade (calculateFinalScore (Num 60) (Num 92) (Num 26))
   \<and> \<not> (trim [CHR 0xC2, CHR 0xA0, CHR '' '', CHR ''c'', CHR ''S'', CHR '' ''] = []
      \<or> ci_substring asciiLowerCase
           (trim [CHR 0xC2, CHR 0xA0, CHR '' '', CHR ''c'', CHR ''S'', CHR '' '']) ''Budi''
      \<or> ci_substring asciiLowerCase
           (trim [CHR 0xC2, CHR 0xA0, CHR '' '', CHR ''c'', CHR ''S'', CHR '' '']) ''002''
      \<or> ci_substring asciiLowerCase
           (trim [CHR 0xC2, CHR 0xA0, CHR '' '', CHR ''c'', CHR ''S'', CHR '' '']) ''Math'')"
proof -
  have ev: "filteredStudents asciiLowerCase
     [\<lparr>id_col = 3, nama = ''Citra'', nim = ''003'', matkul = ''CS'',
        tb1 = Num 60, tb2 = Num 92, uas = Num 26\<rparr>,
      \<lparr>id_col = 2, nama = ''Budi'', nim = ''002'', matkul = ''Math'',
        tb1 = Num 50, tb2 = Num 50, uas = Num 50\<rparr>,
      \<lparr>id_col = 1, nama = ''Ani'', nim = ''001'', matkul = ''CS'',
        tb1 = Num 80, tb2 = Num 90, uas = Num 70\<rparr>]
     [CHR 0xC2, CHR 0xA0, CHR '' '', CHR ''c'', CHR ''S'', CHR '' ''] ''B+'' ''Semua Program Studi''
   = [\<lparr>id_col = 1, nama = ''Ani'', nim = ''001'', matkul = ''CS'',
        tb1 = Num 80, tb2 = Num 90, uas = Num 70\<rparr>]"
    by (simp add: filteredStudents_def matchesSearch_def matchesGrade_def matchesCourse_def
        trim_def whiteSpace_def asciiLowerCase_def toLowerChar_def cfs_80_90_70 cfs_50_50_50
        cfs_60_92_26 scoreToGrade_Num)
  have ev2: "filteredStudents asciiLowerCase
     [\<lparr>id_col = 3, nama = ''Citra'', nim = ''003'', matkul = ''CS'',
        tb1 = Num 60, tb2 = Num 92, uas = Num 26\<rparr>,
      \<lparr>id_col = 2, nama = ''Budi'', nim = ''002'', matkul = ''Math'',
        tb1 = Num 50, tb2 = Num 50, uas = Num 50\<rparr>,
      \<lparr>id_col = 1, nama = ''Ani'', nim = ''001'', matkul = ''CS'',
        tb1 = Num 80, tb2 = Num 90, uas = Num 70\<rparr>]
     [CHR 0xC2, CHR 0xA0, CHR '' '', CHR ''c'', CHR ''S'', CHR '' ''] ''D'' ''Semua Program Studi''
   = [\<lparr>id_col = 3, nama = ''Citra'', nim = ''003'', matkul = ''CS'',
        tb1 = Num 60, tb2 = Num 92, uas = Num 26\<rparr>]"
    by (simp add: filteredStudents_def matchesSearch_def matchesGrade_def matchesCourse_def
        trim_def whiteSpace_def asciiLowerCase_def toLowerChar_def cfs_80_90_70 cfs_50_50_50
        cfs_60_92_26 scoreToGrade_Num)
  have ev3: "filteredStudents asciiLowerCase
     [\<lparr>id_col = 3, nama = ''Citra'', nim = ''003'', matkul = ''CS'',
        tb1 = Num 60, tb2 = Num 92, uas = Num 26\<rparr>,
      \<lparr>id_col = 2, nama = ''Budi'', nim = ''002'', matkul = ''Math'',
        tb1 = Num 50, tb2 = Num 50, uas = Num 50\<rparr>,
      \<lparr>id_col = 1, nama = ''Ani'', nim = ''001'', matkul = ''CS'',
        tb1 = Num 80, tb2 = Num 90, uas = Num 70\<rparr>]
     [CHR 0xC2, CHR 0xA0, CHR '' '', CHR ''c'', CHR ''S'', CHR '' ''] ''Semua Grade'' ''Semua Program Studi''
   = [\<lparr>id_col = 3, nama = ''Citra'', nim = ''003'', matkul = ''CS'',
        tb1 = Num 60, tb2 = Num 92, uas = Num 26\<rparr>,
      \<lparr>id_col = 1, nama = ''Ani'', nim = ''001'', matkul = ''CS'',
        tb1 = Num 80, tb2 = Num 90, uas = Num 70\<rparr>]"
    by (simp add: filteredStudents_def matchesSearch_def matchesGrade_def matchesCourse_def
        trim_def whiteSpace_def asciiLowerCase_def toLowerChar_def cfs_80_90_70 cfs_50_50_50
        cfs_60_92_26 scoreToGrade_Num)
  note v = filteredStudents_visible [of asciiLowerCase, OF asciiLowerCase_empty, THEN conjunct1]
  have ani: "trim [CHR 0xC2, CHR 0xA0, CHR '' '', CHR ''c'', CHR ''S'', CHR '' ''] = []
      \<or> ci_substring asciiLowerCase
           (trim [CHR 0xC2, CHR 0xA0, CHR '' '', CHR ''c'', CHR ''S'', CHR '' '']) ''Ani''
      \<or> ci_substring asciiLowerCase
           (trim [CHR 0xC2, CHR 0xA0, CHR '' '', CHR ''c'', CHR ''S'', CHR '' '']) ''001''
      \<or> ci_substring asciiLowerCase
           (trim [CHR 0xC2, CHR 0xA0, CHR '' '', CHR ''c'', CHR ''S'', CHR '' '']) ''CS''"
    using v [of "\<lparr>id_col = 1, nama = ''Ani'', nim = ''001'', matkul = ''CS'',
        tb1 = Num 80, tb2 = Num 90, uas = Num 70\<rparr>"
        "[\<lparr>id_col = 3, nama = ''Citra'', nim = ''003'', matkul = ''CS'',
        tb1 = Num 60, tb2 = Num 92, uas = Num 26\<rparr>,
      \<lparr>id_col = 2, nama = ''Budi'', nim = ''002'', matkul = ''Math'',
        tb1 = Num 50, tb2 = Num 50, uas = Num 50\<rparr>,
      \<lparr>id_col = 1, nama = ''Ani'', nim = ''001'', matkul = ''CS'',
        tb1 = Num 80, tb2 = Num 90, uas = Num 70\<rparr>]"
        "[CHR 0xC2, CHR 0xA0, CHR '' '', CHR ''c'', CHR ''S'', CHR '' '']"
        "''B+''" "''Semua Program Studi''"]
    by (simp only: ev) simp
  have citra: "''D'' = scoreToGrade (calculateFinalScore (Num 60) (Num 92) (Num 26))"
    using v [of "\<lparr>id_col = 3, nama = ''Citra'', nim = ''003'', matkul = ''CS'',
        tb1 = Num 60, tb2 = Num 92, uas = Num 26\<rparr>"
        "[\<lparr>id_col = 3, nama = ''Citra'', nim = ''003'', matkul = ''CS'',
        tb1 = Num 60, tb2 = Num 92, uas = Num 26\<rparr>,
      \<lparr>id_col = 2, nama = ''Budi'', nim = ''002'', matkul = ''Math'',
        tb1 = Num 50, tb2 = Num 50, uas = Num 50\<rparr>,
      \<lparr>id_col = 1, nama = ''Ani'', nim = ''001'', matkul = ''CS'',
        tb1 = Num 80, tb2 = Num 90, uas = Num 70\<rparr>]"
        "[CHR 0xC2, CHR 0xA0, CHR '' '', CHR ''c'', CHR ''S'', CHR '' '']"
        "''D''" "''Semua Program Studi''"]
    by (simp only: ev2) simp
  have budi: "\<not> (trim [CHR 0xC2, CHR 0xA0, CHR '' '', CHR ''c'', CHR ''S'', CHR '' ''] = []
      \<or> ci_substring asciiLowerCase
           (trim [CHR 0xC2, CHR 0xA0, CHR '' '', CHR ''c'', CHR ''S'', CHR '' '']) ''Budi''
      \<or> ci_substring asciiLowerCase
           (trim [CHR 0xC2, CHR 0xA0, CHR '' '', CHR ''c'', CHR ''S'', CHR '' '']) ''002''
      \<or> ci_substring asciiLowerCase
           (trim [CHR 0xC2, CHR 0xA0, CHR '' '', CHR ''c'', CHR ''S'', CHR '' '']) ''Math'')"
    using v [of "\<lparr>id_col = 2, nama = ''Budi'', nim = ''002'', matkul = ''Math'',
        tb1 = Num 50, tb2 = Num 50, uas = Num 50\<rparr>"
        "[\<lparr>id_col = 3, nama = ''Citra'', nim = ''003'', matkul = ''CS'',
        tb1 = Num 60, tb2 = Num 92, uas = Num 26\<rparr>,
      \<lparr>id_col = 2, nama = ''Budi'', nim = ''002'', matkul = ''Math'',
        tb1 = Num 50, tb2 = Num 50, uas = Num 50\<rparr>,
      \<lparr>id_col = 1, nama = ''Ani'', nim = ''001'', matkul = ''CS'',
        tb1 = Num 80, tb2 = Num 90, uas = Num 70\<rparr>]"
        "[CHR 0xC2, CHR 0xA0, CHR '' '', CHR ''c'', CHR ''S'', CHR '' '']"
        "''Semua Grade''" "''Semua Program Studi''"]
    by (simp only: ev3) simp
  from ev ev2 ani citra budi show ?thesis by (intro conjI)
qed

lemma slice_nonneg:
  assumes "0 \<le> a" "a \<le> b"
  shows "slice xs a b = take (nat b - nat a) (drop (nat a) xs)"
proof (cases "a \<le> int (length xs)")
  case True
  show ?thesis
  proof (cases "b \<le> int (length xs)")
    case True
    with assms \<open>a \<le> int (length xs)\<close> show ?thesis
      by (simp add: slice_def Let_def min_def nat_diff_distrib)
  next
    case False
    with assms True have "take (nat (int (length xs) - a)) (drop (nat a) xs) = drop (nat a) xs"
      by (simp add: nat_diff_distrib)
    moreover have "take (nat b - nat a) (drop (nat a) xs) = drop (nat a) xs"
      using assms True False by simp
    ultimately show ?thesis
      using assms True False by (simp add: slice_def Let_def min_def)
  qed
next
  case False
  with assms show ?thesis
    by (simp add: slice_def Let_def min_def)
qed

lemma paginatedStudents_take_drop:
  assumes "0 < itemsPerPage" "1 \<le> currentPage"
  shows "paginatedStudents filtered currentPage itemsPerPage
     = take (nat itemsPerPage) (drop (nat (currentPage - 1) * nat itemsPerPage) filtered)"
proof -
  let ?a = "(currentPage - 1) * itemsPerPage"
  have a: "0 \<le> ?a" using assms by simp
  have ab: "?a \<le> ?a + itemsPerPage" using assms by simp
  have n1: "nat ?a = nat (currentPage - 1) * nat itemsPerPage"
    using assms by (simp add: nat_mult_distrib)
  have n2: "nat (?a + itemsPerPage) - nat ?a = nat itemsPerPage"
    using assms a by (simp add: nat_add_distrib)
  have "paginatedStudents filtered currentPage itemsPerPage = slice filtered ?a (?a + itemsPerPage)"
    by (simp add: paginatedStudents_def Let_def)
  also have "\<dots> = take (nat (?a + itemsPerPage) - nat ?a) (drop (nat ?a) filtered)"
    by (rule slice_nonneg [OF a ab])
  also have "\<dots> = take (nat itemsPerPage) (drop (nat ?a) filtered)"
    by (simp only: n2)
  also have "\<dots> = take (nat itemsPerPage) (drop (nat (currentPage - 1) * nat itemsPerPage) filtered)"
    by (simp only: n1)
  finally show ?thesis .
qed

lemma take_drop_nth:
  "take n (drop a xs) = map ((!) xs) [a ..< min (a + n) (length xs)]"
proof (rule nth_equalityI)
  show "length (take n (drop a xs)) = length (map ((!) xs) [a ..< min (a + n) (length xs)])"
    by auto
next
  fix i assume "i < length (take n (drop a xs))"
  then show "take n (drop a xs) ! i = map ((!) xs) [a ..< min (a + n) (length xs)] ! i"
    by auto
qed

lemma concat_pages:
  "concat (map (\<lambda>i. take n (drop (i * n) xs)) [0 ..< k]) = take (k * n) xs"
proof (induction k)
  case 0
  then show ?case by simp
next
  case (Suc k)
  have "take (Suc k * n) xs = take (k * n + n) xs" by (simp add: add.commute)
  also have "\<dots> = take (k * n) xs @ take n (drop (k * n) xs)" by (rule take_add)
  finally show ?case using Suc by simp
qed

lemma upto_as_map: "0 \<le> k \<Longrightarrow> [1 .. k] = map (\<lambda>i. int i + 1) [0 ..< nat k]"
proof (induction "nat k" arbitrary: k)
  case 0
  then show ?case by simp
next
  case (Suc m)
  then have k: "k = int m + 1" by linarith
  have sm: "nat (int m + 1) = Suc m" by simp
  have "[1 .. int m + 1] = [1 .. int m] @ [int m + 1]"
    by (simp add: upto_rec2)
  moreover have "[1 .. int m] = map (\<lambda>i. int i + 1) [0 ..< nat (int m)]"
    using Suc.hyps(1) [of "int m"] by simp
  ultimately show ?case unfolding k sm by simp
qed

lemma Math_max_one: "Math_max (Num 1) (Num (of_int c)) = Num (of_int (max 1 c))"
proof (cases "1 < c")
  case True
  then show ?thesis by (simp add: Math_max_def isNaN_def max_def)
next
  case False
  then show ?thesis by (simp add: Math_max_def isNaN_def max_def)
qed

lemma totalPages_pos:
  assumes "0 < itemsPerPage"
  shows "totalPages n itemsPerPage = Num (of_int (max 1 \<lceil>real n / of_int itemsPerPage\<rceil>))"
proof -
  have "js_div (Num (real n)) (Num (of_int itemsPerPage)) = Num (real n / of_int itemsPerPage)"
    using assms by simp
  then have "totalPages n itemsPerPage
      = Math_max (Num 1) (Num (of_int \<lceil>real n / of_int itemsPerPage\<rceil>))"
    by (simp add: totalPages_def)
  then show ?thesis by (simp only: Math_max_one)
qed

lemma ceil_pages_cover:
  assumes "0 < (p::int)"
  shows "n \<le> nat (max 1 \<lceil>real n / of_int p\<rceil>) * nat p"
proof -
  let ?c = "\<lceil>real n / of_int p\<rceil>"
  have "real n / of_int p \<le> of_int ?c" by (rule le_of_int_ceiling)
  moreover have "0 < (of_int p :: real)" using assms by simp
  ultimately have "real n \<le> of_int ?c * of_int p"
    by (simp only: pos_divide_le_eq)
  then have "int n \<le> ?c * p"
    by (metis of_int_mult of_int_of_nat_eq of_int_le_iff)
  also have "\<dots> \<le> max 1 ?c * p"
    using assms by (simp add: mult_right_mono)
  finally have "int n \<le> max 1 ?c * p" .
  then have "n \<le> nat (max 1 ?c * p)" by linarith
  also have "\<dots> = nat (max 1 ?c) * nat p"
    by (simp add: nat_mult_distrib)
  finally show ?thesis .
qed

text \<open>
  C4.  For any filtered list, any positive \<open>itemsPerPage\<close> and any \<open>currentPage\<close> from 1
  on, the visible page holds the elements at the positions from
  \<open>(currentPage - 1) * itemsPerPage\<close> up to, and not including, \<open>currentPage * itemsPerPage\<close>,
  as far as the list reaches; \<open>totalPages\<close> is the larger of 1 and the ceiling of the length
  over \<open>itemsPerPage\<close>; and the pages 1 to \<open>totalPages\<close>, one after the other, are exactly
  the filtered list: every element once, in its place.
\<close>

theorem pagination:
  assumes "0 < itemsPerPage"
  shows
  "(1 \<le> currentPage \<longrightarrow>
      paginatedStudents filtered currentPage itemsPerPage
        = map ((!) filtered)
            [nat ((currentPage - 1) * itemsPerPage)
               ..< min (nat (currentPage * itemsPerPage)) (length filtered)]
      \<and> paginatedStudents filtered currentPage itemsPerPage
        = take (nat itemsPerPage) (drop (nat ((currentPage - 1) * itemsPerPage)) filtered))
   \<and> totalPages (length filtered) itemsPerPage
       = Num (of_int (max 1 \<lceil>real (length filtered) / of_int itemsPerPage\<rceil>))
   \<and> concat (map (\<lambda>page. paginatedStudents filtered page itemsPerPage)
               [1 .. max 1 \<lceil>real (length filtered) / of_int itemsPerPage\<rceil>])
       = filtered"
proof -
  let ?n = "nat itemsPerPage"
  let ?tp = "max 1 \<lceil>real (length filtered) / of_int itemsPerPage\<rceil>"
  have page: "1 \<le> currentPage \<longrightarrow>
      paginatedStudents filtered currentPage itemsPerPage
        = map ((!) filtered)
            [nat ((currentPage - 1) * itemsPerPage)
               ..< min (nat (currentPage * itemsPerPage)) (length filtered)]
      \<and> paginatedStudents filtered currentPage itemsPerPage
        = take (nat itemsPerPage) (drop (nat ((currentPage - 1) * itemsPerPage)) filtered)"
  proof
    assume cp: "1 \<le> currentPage"
    have a: "nat (currentPage - 1) * ?n = nat ((currentPage - 1) * itemsPerPage)"
      using assms cp by (simp add: nat_mult_distrib)
    have b: "nat ((currentPage - 1) * itemsPerPage) + ?n = nat (currentPage * itemsPerPage)"
    proof -
      have "0 \<le> (currentPage - 1) * itemsPerPage" using assms cp by simp
      then have "nat ((currentPage - 1) * itemsPerPage) + ?n
          = nat ((currentPage - 1) * itemsPerPage + itemsPerPage)"
        using assms by (simp add: nat_add_distrib)
      also have "(currentPage - 1) * itemsPerPage + itemsPerPage = currentPage * itemsPerPage"
        by (simp add: algebra_simps)
      finally show ?thesis .
    qed
    have td: "paginatedStudents filtered currentPage itemsPerPage
        = take ?n (drop (nat ((currentPage - 1) * itemsPerPage)) filtered)"
      using paginatedStudents_take_drop [OF assms cp, of filtered] by (simp only: a)
    have "take ?n (drop (nat ((currentPage - 1) * itemsPerPage)) filtered)
        = map ((!) filtered)
            [nat ((currentPage - 1) * itemsPerPage)
               ..< min (nat ((currentPage - 1) * itemsPerPage) + ?n) (length filtered)]"
      by (rule take_drop_nth)
    with td b show "paginatedStudents filtered currentPage itemsPerPage
        = map ((!) filtered)
            [nat ((currentPage - 1) * itemsPerPage)
               ..< min (nat (currentPage * itemsPerPage)) (length filtered)]
      \<and> paginatedStudents filtered currentPage itemsPerPage
        = take (nat itemsPerPage) (drop (nat ((currentPage - 1) * itemsPerPage)) filtered)"
      by simp
  qed
  have total: "totalPages (length filtered) itemsPerPage = Num (of_int ?tp)"
    by (rule totalPages_pos [OF assms])
  have tp: "0 \<le> ?tp" by simp
  have each: "\<And>i. paginatedStudents filtered (int i + 1) itemsPerPage
      = take ?n (drop (i * ?n) filtered)"
  proof -
    fix i :: nat
    have "1 \<le> int i + 1" by simp
    from paginatedStudents_take_drop [OF assms this, of filtered]
    show "paginatedStudents filtered (int i + 1) itemsPerPage = take ?n (drop (i * ?n) filtered)"
      by simp
  qed
  have "concat (map (\<lambda>page. paginatedStudents filtered page itemsPerPage) [1 .. ?tp])
      = concat (map (\<lambda>i. take ?n (drop (i * ?n) filtered)) [0 ..< nat ?tp])"
    by (simp only: upto_as_map [OF tp] map_map o_def each)
  also have "\<dots> = take (nat ?tp * ?n) filtered"
    by (rule concat_pages)
  also have "\<dots> = filtered"
    using ceil_pages_cover [OF assms, of "length filtered"] by simp
  finally have all: "concat (map (\<lambda>page. paginatedStudents filtered page itemsPerPage) [1 .. ?tp])
      = filtered" .
  from page total all show ?thesis by blast
qed

text \<open>The theorem at a list of five elements and a page size of two: three pages, the last one short.\<close>

theorem pagination_witness:
  "(0::int) < 2
   \<and> paginatedStudents [10, 20, 30, 40, 50 :: nat] 3 2 = [50]
   \<and> totalPages (length [10, 20, 30, 40, 50 :: nat]) 2 = Num 3
   \<and> concat (map (\<lambda>page. paginatedStudents [10, 20, 30, 40, 50 :: nat] page 2) [1 .. 3])
       = [10, 20, 30, 40, 50]"
proof -
  have pos: "(0::int) < 2" by simp
  have c: "\<lceil>real (length [10, 20, 30, 40, 50 :: nat]) / of_int 2\<rceil> = 3"
    by (simp add: ceiling_eq_iff)
  show ?thesis
    using pagination [OF pos, of 3 "[10, 20, 30, 40, 50 :: nat]"] pos
    by (simp only: c) (simp add: upt_rec)
qed

lemma step_gradeFilter:
  assumes "fst st \<in> set gradeOptions"
  shows "fst (step st ev) \<in> set gradeOptions"
proof (cases st)
  case (fields gradeFilter courseFilter courseOptions)
  show ?thesis
  proof (cases ev)
    case (PressGrade i)
    show ?thesis
    proof (cases "i < length gradeOptions")
      case True
      then have "gradeOptions ! i \<in> set gradeOptions" by (rule nth_mem)
      with True fields PressGrade show ?thesis by simp
    next
      case False
      with assms fields PressGrade show ?thesis by simp
    qed
  next
    case (PressCourse i)
    with assms fields show ?thesis by simp
  next
    case PressReset
    with assms fields show ?thesis by (simp add: gradeOptions_def)
  next
    case (StudentsLoaded db)
    with assms fields show ?thesis by simp
  qed
qed

lemma foldl_step_gradeFilter:
  "fst st \<in> set gradeOptions \<Longrightarrow> fst (foldl step st evs) \<in> set gradeOptions"
  by (induction evs arbitrary: st) (simp_all add: step_gradeFilter)

lemma run_gradeFilter: "fst (run evs) \<in> set gradeOptions"
  unfolding run_def
  by (rule foldl_step_gradeFilter) (simp add: initial_filters_def gradeOptions_def)

text \<open>
  C9.  In every state that the filter menus reach from the initial state, by any sequence
  of presses on menu items, presses on \<open>Reset\<close> and reloads of the list, the condition
  \<open>gradeFilter !== 'All Grades' || courseFilter !== 'All Courses'\<close> of the \<open>Reset\<close> control
  is true.  A grade filter taken from the grade options makes it true whatever the course
  filter is, since \<open>All Grades\<close> is not among the grade options.  Neither literal of the
  condition is the sentinel in use (\<open>Semua Grade\<close>, \<open>Semua Program Studi\<close>), so the control is
  shown in the initial state, with both filters at their sentinels.
\<close>

theorem clearFiltersVisible_always:
  "clearFiltersVisible (fst (run evs)) (fst (snd (run evs)))
   \<and> (gradeFilter \<in> set gradeOptions \<longrightarrow> clearFiltersVisible gradeFilter courseFilter)
   \<and> ''All Grades'' \<notin> set gradeOptions
   \<and> ''All Grades'' \<noteq> ''Semua Grade''
   \<and> ''All Courses'' \<noteq> ''Semua Program Studi''
   \<and> run [] = (''Semua Grade'', ''Semua Program Studi'', [])
   \<and> clearFiltersVisible ''Semua Grade'' ''Semua Program Studi''"
proof -
  have no: "''All Grades'' \<notin> set gradeOptions"
    by (simp add: gradeOptions_def)
  have vis: "\<And>g c. g \<in> set gradeOptions \<Longrightarrow> clearFiltersVisible g c"
    using no by (auto simp: clearFiltersVisible_def)
  have r: "clearFiltersVisible (fst (run evs)) (fst (snd (run evs)))"
    by (rule vis [OF run_gradeFilter])
  have init: "run [] = (''Semua Grade'', ''Semua Program Studi'', [])"
    by (simp add: run_def initial_filters_def)
  have s: "clearFiltersVisible ''Semua Grade'' ''Semua Program Studi''"
    by (simp add: clearFiltersVisible_def)
  from no vis r init s show ?thesis by simp
qed

text \<open>
  The theorem after three events that leave the grade filter at \<open>A\<close> and the course filter
  at a course that is named \<open>All Courses\<close>: the condition still holds.
\<close>

theorem clearFiltersVisible_always_witness:
  "''A'' \<in> set gradeOptions
   \<and> clearFiltersVisible ''A'' ''All Courses''
   \<and> run [PressGrade 1,
        StudentsLoaded
          \<lparr>mahasiswa = [\<lparr>id_col = 1, nama = ''Ani'', nim = ''001'', matkul = ''All Courses'',
                          tb1 = Num 80, tb2 = Num 90, uas = Num 70\<rparr>],
           sqlite_sequence = 1, settings = None\<rparr>,
        PressCourse 1] = (''A'', ''All Courses'', [''All Courses''])
   \<and> clearFiltersVisible
       (fst (run [PressGrade 1,
        StudentsLoaded
          \<lparr>mahasiswa = [\<lparr>id_col = 1, nama = ''Ani'', nim = ''001'', matkul = ''All Courses'',
                          tb1 = Num 80, tb2 = Num 90, uas = Num 70\<rparr>],
           sqlite_sequence = 1, settings = None\<rparr>,
        PressCourse 1]))
       (fst (snd (run [PressGrade 1,
        StudentsLoaded
          \<lparr>mahasiswa = [\<lparr>id_col = 1, nama = ''Ani'', nim = ''001'', matkul = ''All Courses'',
                          tb1 = Num 80, tb2 = Num 90, uas = Num 70\<rparr>],
           sqlite_sequence = 1, settings = None\<rparr>,
        PressCourse 1])))"
proof -
  have ev: "run [PressGrade 1,
        StudentsLoaded
          \<lparr>mahasiswa = [\<lparr>id_col = 1, nama = ''Ani'', nim = ''001'', matkul = ''All Courses'',
                          tb1 = Num 80, tb2 = Num 90, uas = Num 70\<rparr>],
           sqlite_sequence = 1, settings = None\<rparr>,
        PressCourse 1] = (''A'', ''All Courses'', [''All Courses''])"
    by (simp add: run_def initial_filters_def gradeOptions_def courseOptionsWithAll_def
        loadStudents_def)
  show ?thesis
    using clearFiltersVisible_always [of "[PressGrade 1,
        StudentsLoaded
          \<lparr>mahasiswa = [\<lparr>id_col = 1, nama = ''Ani'', nim = ''001'', matkul = ''All Courses'',
                          tb1 = Num 80, tb2 = Num 90, uas = Num 70\<rparr>],
           sqlite_sequence = 1, settings = None\<rparr>,
        PressCourse 1]" "''A''" "''All Courses''"]
    unfolding ev by (simp add: gradeOptions_def)
qed

end
